theory Spec2Isabelle
  imports Main "HOL-Library.Word" "HOL-Library.AList" "HOL-Library.Sublist"
begin

section \<open>Python values, exceptions and strings\<close>

text \<open>
  The lecture pipeline is a Python program whose data are JSON-like values: the notes the
  generative provider returns, the documents of the two MongoDB collections and the poll
  results of the transcription provider. One datatype carries them all. A \<open>dict\<close> is an
  association list in insertion order (\<open>AList.update\<close> replaces a key in place and appends
  a new one, as a Python dict does); a \<open>float\<close> is its IEEE-754 bit pattern; a \<open>str\<close> is
  a list of characters, one \<open>char\<close> standing for one code point below 256.
\<close>

datatype pyval =
    PNone
  | PBool bool
  | PInt int
  | PFloat "64 word"
  | PStr string
  | PList "pyval list"
  | PDict "(string \<times> pyval) list"
  | PDate nat
  | POid string

text \<open>
  Every \<open>raise\<close> of the program and of the libraries it calls is a value. Only
  \<open>HTTPException\<close> is told apart by the code (the framework turns it into a response);
  failures of the external collaborators (HTTP client, database driver, file system,
  generative provider, \<open>json.loads\<close>) are \<open>OtherError\<close> with their message.
\<close>

datatype py_exc =
    ValueError string
  | TypeError string
  | KeyError string
  | NameError string
  | OtherError string
  | HTTPException nat string

fun decimal :: "nat \<Rightarrow> string" where
  "decimal n =
     (if n < 10 then [''0123456789'' ! n]
      else decimal (n div 10) @ [''0123456789'' ! (n mod 10)])"

declare decimal.simps [simp del]

text \<open>\<open>str(e)\<close>: the message; for a \<open>KeyError\<close> the repr of the key, for an
  \<open>HTTPException\<close> the framework's rendering, status code then detail.\<close>

fun str_exc :: "py_exc \<Rightarrow> string" where
  "str_exc (ValueError m) = m"
| "str_exc (TypeError m) = m"
| "str_exc (KeyError k) = [CHR 0x27] @ k @ [CHR 0x27]"
| "str_exc (NameError m) = m"
| "str_exc (OtherError m) = m"
| "str_exc (HTTPException code detail) = decimal code @ '': '' @ detail"

text \<open>Whitespace as \<open>str.strip\<close>, \<open>str.split\<close> and the regular expression class
  \<open>\s\<close> see it, on the code points below 256.\<close>

definition is_space :: "char \<Rightarrow> bool" where
  "is_space c = (of_char c \<in> {9, 10, 11, 12, 13, 28, 29, 30, 31, 32, 133, 160 :: nat})"

definition rstrip :: "string \<Rightarrow> string" where
  "rstrip s = rev (dropWhile is_space (rev s))"

definition strip :: "string \<Rightarrow> string" where
  "strip s = rstrip (dropWhile is_space s)"

text \<open>\<open>s.split()\<close>: the maximal runs of non-whitespace; \<open>w\<close> is the current word,
  reversed.\<close>

fun split_from :: "string \<Rightarrow> string \<Rightarrow> string list" where
  "split_from w [] = (if w = [] then [] else [rev w])"
| "split_from w (c # cs) =
     (if is_space c then (if w = [] then split_from [] cs else rev w # split_from [] cs)
      else split_from (c # w) cs)"

definition split :: "string \<Rightarrow> string list" where
  "split s = split_from [] s"

fun join :: "string \<Rightarrow> string list \<Rightarrow> string" where
  "join sep [] = []"
| "join sep [x] = x"
| "join sep (x # y # ys) = x @ sep @ join sep (y # ys)"

fun is_substring :: "string \<Rightarrow> string \<Rightarrow> bool" where
  "is_substring k [] = (k = [])"
| "is_substring k (c # cs) = (prefix k (c # cs) \<or> is_substring k cs)"

fun type_name :: "pyval \<Rightarrow> string" where
  "type_name PNone = ''NoneType''"
| "type_name (PBool _) = ''bool''"
| "type_name (PInt _) = ''int''"
| "type_name (PFloat _) = ''float''"
| "type_name (PStr _) = ''str''"
| "type_name (PList _) = ''list''"
| "type_name (PDict _) = ''dict''"
| "type_name (PDate _) = ''datetime.datetime''"
| "type_name (POid _) = ''ObjectId''"

definition quoted :: "string \<Rightarrow> string" where
  "quoted s = [CHR 0x27] @ s @ [CHR 0x27]"

text \<open>\<open>bool(v)\<close>, as \<open>if notes["sections"]:\<close> evaluates it.\<close>

fun truthy :: "pyval \<Rightarrow> bool" where
  "truthy PNone = False"
| "truthy (PBool b) = b"
| "truthy (PInt n) = (n \<noteq> 0)"
| "truthy (PFloat w) = (w \<noteq> 0 \<and> w \<noteq> 0x8000000000000000)"
| "truthy (PStr s) = (s \<noteq> [])"
| "truthy (PList xs) = (xs \<noteq> [])"
| "truthy (PDict kvs) = (kvs \<noteq> [])"
| "truthy (PDate _) = True"
| "truthy (POid _) = True"

text \<open>
  \<open>key in c\<close>, \<open>c[key]\<close> and \<open>c[key] = v\<close> for a string key: defined on a dict,
  a membership or substring test on a list or a str, a \<open>TypeError\<close> everywhere else
  (the messages are CPython's).
\<close>

definition py_contains :: "string \<Rightarrow> pyval \<Rightarrow> py_exc + bool" where
  "py_contains key c =
     (case c of
        PDict kvs \<Rightarrow> Inr (key \<in> set (map fst kvs))
      | PList xs \<Rightarrow> Inr (PStr key \<in> set xs)
      | PStr s \<Rightarrow> Inr (is_substring key s)
      | _ \<Rightarrow> Inl (TypeError (''argument of type '' @ quoted (type_name c) @ '' is not iterable'')))"

definition py_getitem :: "pyval \<Rightarrow> string \<Rightarrow> py_exc + pyval" where
  "py_getitem c key =
     (case c of
        PDict kvs \<Rightarrow> (case map_of kvs key of None \<Rightarrow> Inl (KeyError key) | Some v \<Rightarrow> Inr v)
      | PList xs \<Rightarrow> Inl (TypeError ''list indices must be integers or slices, not str'')
      | PStr s \<Rightarrow> Inl (TypeError (''string indices must be integers, not '' @ quoted ''str''))
      | _ \<Rightarrow> Inl (TypeError (quoted (type_name c) @ '' object is not subscriptable'')))"

definition py_setitem :: "pyval \<Rightarrow> string \<Rightarrow> pyval \<Rightarrow> py_exc + pyval" where
  "py_setitem c key v =
     (case c of
        PDict kvs \<Rightarrow> Inr (PDict (AList.update key v kvs))
      | PList xs \<Rightarrow> Inl (TypeError ''list indices must be integers or slices, not str'')
      | _ \<Rightarrow> Inl (TypeError (quoted (type_name c) @ '' object does not support item assignment'')))"

text \<open>\<open>d.get(key, default)\<close> on a dict.\<close>

definition dict_get :: "(string \<times> pyval) list \<Rightarrow> string \<Rightarrow> pyval \<Rightarrow> pyval" where
  "dict_get kvs key dflt = (case map_of kvs key of None \<Rightarrow> dflt | Some v \<Rightarrow> v)"

section \<open>Note synthesizer (services/gemini\_service.py)\<close>

subsection \<open>\_validate\_notes\_structure\<close>

definition required_keys :: "(string \<times> pyval) list" where
  "required_keys =
     [(''title'', PStr ''Untitled Lecture''),
      (''summary'', PStr ''Summary unavailable''),
      (''sections'', PList []),
      (''key_terms'', PList []),
      (''formulas'', PList []),
      (''action_items'', PList []),
      (''questions'', PList [])]"

text \<open>One round of the first loop:
  \<open>if key not in notes or notes[key] is None: notes[key] = default\<close>.\<close>

definition ensure_key :: "string \<Rightarrow> pyval \<Rightarrow> pyval \<Rightarrow> py_exc + pyval" where
  "ensure_key key dflt notes =
     (case py_contains key notes of
        Inl e \<Rightarrow> Inl e
      | Inr present \<Rightarrow>
          if \<not> present then py_setitem notes key dflt
          else (case py_getitem notes key of
                  Inl e \<Rightarrow> Inl e
                | Inr v \<Rightarrow> if v = PNone then py_setitem notes key dflt else Inr notes))"

fun ensure_keys :: "(string \<times> pyval) list \<Rightarrow> pyval \<Rightarrow> py_exc + pyval" where
  "ensure_keys [] notes = Inr notes"
| "ensure_keys ((key, dflt) # rest) notes =
     (case ensure_key key dflt notes of
        Inl e \<Rightarrow> Inl e
      | Inr notes' \<Rightarrow> ensure_keys rest notes')"

text \<open>\<open>if key not in section: section[key] = default\<close>.\<close>

definition default_if_missing :: "string \<Rightarrow> pyval \<Rightarrow> pyval \<Rightarrow> py_exc + pyval" where
  "default_if_missing key dflt section =
     (case py_contains key section of
        Inl e \<Rightarrow> Inl e
      | Inr present \<Rightarrow> if \<not> present then py_setitem section key dflt else Inr section)"

text \<open>The four tests on one section, in the order of the source.\<close>

definition fix_section :: "pyval \<Rightarrow> py_exc + pyval" where
  "fix_section section =
     (case default_if_missing ''heading'' (PStr ''Untitled Section'') section of
        Inl e \<Rightarrow> Inl e
      | Inr s1 \<Rightarrow>
          (case default_if_missing ''content'' (PStr []) s1 of
             Inl e \<Rightarrow> Inl e
           | Inr s2 \<Rightarrow>
               (case default_if_missing ''bullet_points'' (PList []) s2 of
                  Inl e \<Rightarrow> Inl e
                | Inr s3 \<Rightarrow> default_if_missing ''timestamp'' PNone s3)))"

text \<open>The body of \<open>for section in notes["sections"]\<close> over the items in order, stopping
  at the first exception.\<close>

fun fix_each :: "pyval list \<Rightarrow> py_exc + pyval list" where
  "fix_each [] = Inr []"
| "fix_each (s # ss) =
     (case fix_section s of
        Inl e \<Rightarrow> Inl e
      | Inr s' \<Rightarrow> (case fix_each ss of Inl e \<Rightarrow> Inl e | Inr ss' \<Rightarrow> Inr (s' # ss')))"

text \<open>
  The loop iterates whatever \<open>notes["sections"]\<close> is: the elements of a list (dicts are
  updated in place), the keys of a dict or the characters of a str (neither can be
  assigned into, so a pass leaves the container as it was); anything else is not
  iterable.
\<close>

definition fix_sections :: "pyval \<Rightarrow> py_exc + pyval" where
  "fix_sections secs =
     (case secs of
        PList xs \<Rightarrow> (case fix_each xs of Inl e \<Rightarrow> Inl e | Inr xs' \<Rightarrow> Inr (PList xs'))
      | PDict kvs \<Rightarrow>
          (case fix_each (map (\<lambda>kv. PStr (fst kv)) kvs) of
             Inl e \<Rightarrow> Inl e
           | Inr _ \<Rightarrow> Inr (PDict kvs))
      | PStr s \<Rightarrow>
          (case fix_each (map (\<lambda>c. PStr [c]) s) of
             Inl e \<Rightarrow> Inl e
           | Inr _ \<Rightarrow> Inr (PStr s))
      | _ \<Rightarrow> Inl (TypeError (quoted (type_name secs) @ '' object is not iterable'')))"

definition overview_section :: "pyval \<Rightarrow> pyval" where
  "overview_section summary =
     PDict [(''heading'', PStr ''Overview''),
            (''content'', summary),
            (''bullet_points'', PList [PStr ''See transcript for full details'']),
            (''timestamp'', PNone)]"

definition validate_notes_structure :: "pyval \<Rightarrow> py_exc + pyval" where
  "validate_notes_structure notes =
     (case ensure_keys required_keys notes of
        Inl e \<Rightarrow> Inl e
      | Inr notes1 \<Rightarrow>
          (case py_getitem notes1 ''sections'' of
             Inl e \<Rightarrow> Inl e
           | Inr secs \<Rightarrow>
               if truthy secs then
                 (case fix_sections secs of
                    Inl e \<Rightarrow> Inl e
                  | Inr secs' \<Rightarrow> py_setitem notes1 ''sections'' secs')
               else
                 (case py_getitem notes1 ''summary'' of
                    Inl e \<Rightarrow> Inl e
                  | Inr summary \<Rightarrow>
                      py_setitem notes1 ''sections'' (PList [overview_section summary]))))"

subsection \<open>\_create\_fallback\_notes\<close>

definition create_fallback_notes :: "string \<Rightarrow> string \<Rightarrow> pyval" where
  "create_fallback_notes transcript error_msg =
     (let words = split transcript;
          preview = (if length words > 100 then join '' '' (take 100 words) @ ''...''
                     else transcript)
      in PDict
        [(''title'', PStr ''Lecture Notes (Auto-generated)''),
         (''summary'',
            PStr (''Automatic transcription available. Manual review recommended. Error: ''
                  @ take 100 error_msg)),
         (''sections'', PList [PDict
            [(''heading'', PStr ''Transcript Preview''),
             (''content'', PStr preview),
             (''bullet_points'', PList
                [PStr ''Full transcript available'',
                 PStr ''AI note generation encountered an error'',
                 PStr ''Please review the raw transcript'']),
             (''timestamp'', PNone)]]),
         (''key_terms'', PList []),
         (''formulas'', PList []),
         (''action_items'', PList [PStr ''Review full transcript manually'']),
         (''questions'', PList [])])"

subsection \<open>\_extract\_json\_from\_response\<close>

text \<open>\<open>re.sub\<close> of a literal fence \<open>p\<close> followed by \<open>\s*\<close> and anchored at \<open>^\<close>:
  without \<open>re.MULTILINE\<close> the anchor matches at the start only.\<close>

definition sub_fence_start :: "string \<Rightarrow> string \<Rightarrow> string" where
  "sub_fence_start p s = (if prefix p s then dropWhile is_space (drop (length p) s) else s)"

text \<open>\<open>re.sub\<close> of \<open>\s*\<close>, the closing fence and \<open>$\<close>: the anchor matches at the end
  and before a final newline, and the leftmost match takes the whole run of whitespace
  before the fence.\<close>

definition sub_fence_end :: "string \<Rightarrow> string" where
  "sub_fence_end s =
     (if suffix ''```'' s then rstrip (take (length s - 3) s)
      else if suffix (''```'' @ [CHR 0x0A]) s then rstrip (take (length s - 4) s) @ [CHR 0x0A]
      else s)"

text \<open>\<open>re.search\<close> of an opening brace, \<open>.*\<close> under \<open>re.DOTALL\<close> and a closing brace:
  from the first opening brace to the last closing brace after it, if there is one.\<close>

definition search_braces :: "string \<Rightarrow> string option" where
  "search_braces s =
     (let r = dropWhile (\<lambda>c. c \<noteq> CHR ''{'') s in
      if r = [] then None
      else let t = rev (dropWhile (\<lambda>c. c \<noteq> CHR ''}'') (rev (tl r))) in
           if t = [] then None else Some (CHR ''{'' # t))"

text \<open>\<open>json.loads\<close> is the library's: the parser is a parameter, returning the parsed
  value or raising.\<close>

definition extract_json_from_response ::
    "(string \<Rightarrow> py_exc + pyval) \<Rightarrow> string \<Rightarrow> py_exc + pyval" where
  "extract_json_from_response loads response_text =
     (let t0 = strip response_text;
          t1 = sub_fence_start ''```json'' t0;
          t2 = sub_fence_start ''```'' t1;
          t3 = sub_fence_end t2;
          t4 = strip t3;
          t5 = (case search_braces t4 of Some m \<Rightarrow> m | None \<Rightarrow> t4)
      in loads t5)"

subsection \<open>\_create\_prompt\<close>

definition prompt_head :: string where
  \<open>prompt_head =
     ''You are an expert educational note-taker. Analyze this lecture transcript and create comprehensive, well-structured notes.\<newline>'' @
     ''\<newline>'' @
     ''TRANSCRIPT:\<newline>''\<close>

definition prompt_tail :: string where
  \<open>prompt_tail =
     ''\<newline>'' @
     ''\<newline>'' @
     ''Create structured notes in this EXACT JSON format (return ONLY valid JSON, no markdown, no explanations):\<newline>'' @
     ''\<newline>'' @
     ''{\<newline>'' @
     ''    "title": "A clear, descriptive title for the lecture",\<newline>'' @
     ''    "summary": "A 2-3 sentence summary of the main topic and key takeaways",\<newline>'' @
     ''    "sections": [\<newline>'' @
     ''        {\<newline>'' @
     ''            "heading": "Section 1 Title",\<newline>'' @
     ''            "content": "Detailed explanation in 2-3 paragraphs covering this topic",\<newline>'' @
     ''            "bullet_points": [\<newline>'' @
     ''                "Key point 1 with specific details",\<newline>'' @
     ''                "Key point 2 with specific details",\<newline>'' @
     ''                "Key point 3 with specific details"\<newline>'' @
     ''            ],\<newline>'' @
     ''            "timestamp": "Optional: e.g., '5:30' or 'Beginning' or null"\<newline>'' @
     ''        }\<newline>'' @
     ''    ],\<newline>'' @
     ''    "key_terms": [\<newline>'' @
     ''        "Important term 1",\<newline>'' @
     ''        "Important term 2",\<newline>'' @
     ''        "Important term 3"\<newline>'' @
     ''    ],\<newline>'' @
     ''    "formulas": [\<newline>'' @
     ''        "Mathematical formula 1 (use LaTeX notation if applicable)",\<newline>'' @
     ''        "Mathematical formula 2"\<newline>'' @
     ''    ],\<newline>'' @
     ''    "action_items": [\<newline>'' @
     ''        "Homework assignment mentioned",\<newline>'' @
     ''        "Topic to review before next class",\<newline>'' @
     ''        "Additional reading suggested"\<newline>'' @
     ''    ],\<newline>'' @
     ''    "questions": [\<newline>'' @
     ''        "Important question 1 raised during lecture",\<newline>'' @
     ''        "Important question 2 for review"\<newline>'' @
     ''    ]\<newline>'' @
     ''}\<newline>'' @
     ''\<newline>'' @
     ''GUIDELINES:\<newline>'' @
     ''- Create 3-6 logical sections based on natural topic transitions\<newline>'' @
     ''- Each section should have 3-5 detailed bullet points\<newline>'' @
     ''- Extract 5-15 key terms (important vocabulary, concepts, names)\<newline>'' @
     ''- Include formulas/equations if any are discussed\<newline>'' @
     ''- Note any homework, assignments, or action items mentioned\<newline>'' @
     ''- List important questions raised (not just rhetorical ones)\<newline>'' @
     ''- Use empty arrays [] if a category doesn't apply\<newline>'' @
     ''- Be comprehensive but concise\<newline>'' @
     ''- Use clear, academic language\<newline>'' @
     ''- Ensure all JSON is properly formatted with correct quotes and commas\<newline>'' @
     ''\<newline>'' @
     ''CRITICAL: Return ONLY the JSON object. No markdown code blocks, no explanations, no additional text.''\<close>

definition create_prompt :: "string \<Rightarrow> string" where
  "create_prompt transcript = prompt_head @ transcript @ prompt_tail"

subsection \<open>\_generate\_notes\_sync and generate\_notes\<close>

text \<open>
  The generative provider is a parameter \<open>gen\<close>: the text of the response to a prompt, or
  the exception that \<open>generate_content\<close> or the \<open>.text\<close> accessor raises. The result
  carries the prompts sent to the provider, in order, so that a run which issues no call
  is told apart from one that does.
\<close>

definition max_chars :: nat where
  "max_chars = 30000"

text \<open>The length guard: \<open>transcript[:max_chars]\<close> and the marker.\<close>

definition truncate_transcript :: "string \<Rightarrow> string" where
  "truncate_transcript transcript =
     (if length transcript > max_chars
      then take max_chars transcript @ [CHR 0x0A, CHR 0x0A]
             @ ''[Transcript truncated due to length]''
      else transcript)"

definition generate_notes_sync ::
    "(string \<Rightarrow> py_exc + string) \<Rightarrow> (string \<Rightarrow> py_exc + pyval) \<Rightarrow> string
       \<Rightarrow> (py_exc + pyval) \<times> string list" where
  "generate_notes_sync gen loads transcript =
     (if transcript = [] \<or> length (strip transcript) < 50
      then (Inl (ValueError ''Transcript is too short or empty''), [])
      else
        let transcript' = truncate_transcript transcript;
            prompt = create_prompt transcript'
        in (case (case gen prompt of
                    Inl e \<Rightarrow> Inl e
                  | Inr response_text \<Rightarrow>
                      (case extract_json_from_response loads response_text of
                         Inl e \<Rightarrow> Inl e
                       | Inr notes \<Rightarrow> validate_notes_structure notes)) of
              Inl e \<Rightarrow> (Inr (create_fallback_notes transcript' (str_exc e)), [prompt])
            | Inr notes \<Rightarrow> (Inr notes, [prompt])))"

definition generate_notes ::
    "(string \<Rightarrow> py_exc + string) \<Rightarrow> (string \<Rightarrow> py_exc + pyval) \<Rightarrow> string
       \<Rightarrow> (py_exc + pyval) \<times> string list" where
  "generate_notes gen loads transcript = generate_notes_sync gen loads transcript"


section \<open>The external collaborators\<close>

text \<open>
  Everything the program does not compute itself is read from one record: the answers of
  the two providers, the library functions \<open>repr\<close> and \<open>json.loads\<close>, the clock, the
  identifiers the database driver assigns, and for each call into the database or the
  file system the exception it raises, if any. A run of an endpoint is then a function
  of this record, the request and the stored state.
\<close>

record env =
  py_repr :: "pyval \<Rightarrow> string"
  json_loads :: "string \<Rightarrow> py_exc + pyval"
  gemini :: "string \<Rightarrow> py_exc + string"
  post_upload :: "string \<Rightarrow> py_exc + pyval"
  post_transcript :: "pyval \<Rightarrow> py_exc + pyval"
  poll_status :: "pyval \<Rightarrow> nat \<Rightarrow> py_exc + pyval"
  now_stamp :: string
  now_upload :: nat
  now_created :: nat
  now_edited :: nat
  new_lecture_id :: string
  new_note_id :: string
  open_fault :: "py_exc option"
  write_fault :: "py_exc option"
  insert_lecture_fault :: "py_exc option"
  insert_note_fault :: "py_exc option"
  update_completed_fault :: "py_exc option"
  update_failed_fault :: "py_exc option"
  remove_fault :: "py_exc option"
  delete_notes_fault :: "py_exc option"
  delete_lecture_fault :: "py_exc option"
  find_fault :: "py_exc option"

text \<open>The stored state: the two collections, in insertion order, and the files of the
  upload directory with their bytes.\<close>

type_synonym doc = "(string \<times> pyval) list"

record world =
  lectures_coll :: "doc list"
  notes_coll :: "doc list"
  storage :: "(string \<times> string) list"

text \<open>\<open>str(v)\<close> as an f-string formats it: a str is itself, the rest is its repr.\<close>

definition py_str :: "(pyval \<Rightarrow> string) \<Rightarrow> pyval \<Rightarrow> string" where
  "py_str rep v =
     (case v of
        PStr s \<Rightarrow> s
      | PNone \<Rightarrow> ''None''
      | PBool b \<Rightarrow> (if b then ''True'' else ''False'')
      | POid h \<Rightarrow> h
      | _ \<Rightarrow> rep v)"

text \<open>\<open>c.get(key, default)\<close>: only a dict has the method.\<close>

definition py_get :: "pyval \<Rightarrow> string \<Rightarrow> pyval \<Rightarrow> py_exc + pyval" where
  "py_get c key dflt =
     (case c of
        PDict kvs \<Rightarrow> Inr (dict_get kvs key dflt)
      | _ \<Rightarrow> Inl (OtherError (quoted (type_name c) @ '' object has no attribute ''
                               @ quoted ''get'')))"

section \<open>Transcription orchestrator (services/stt\_service.py)\<close>

definition upload_file :: "env \<Rightarrow> world \<Rightarrow> string \<Rightarrow> py_exc + pyval" where
  "upload_file ev w file_path =
     (case map_of (storage w) file_path of
        None \<Rightarrow> Inl (OtherError (''[Errno 2] No such file or directory: '' @ quoted file_path))
      | Some file_data \<Rightarrow>
          (case post_upload ev file_data of
             Inl e \<Rightarrow> Inl e
           | Inr body \<Rightarrow> py_getitem body ''upload_url''))"

definition create_transcript :: "env \<Rightarrow> pyval \<Rightarrow> py_exc + pyval" where
  "create_transcript ev audio_url =
     (case post_transcript ev
             (PDict [(''audio_url'', audio_url),
                     (''speaker_labels'', PBool True),
                     (''auto_highlights'', PBool True),
                     (''punctuate'', PBool True),
                     (''format_text'', PBool True)]) of
        Inl e \<Rightarrow> Inl e
      | Inr body \<Rightarrow> py_getitem body ''id'')"

text \<open>
  The polling loop \<open>while True\<close>. \<open>server i\<close> is the outcome of the \<open>i\<close>-th request
  (\<open>raise_for_status\<close> included); \<open>slept\<close> counts the seconds spent in
  \<open>asyncio.sleep(5)\<close>. The loop has no bound, so the function is partial: \<open>None\<close> is a
  run that never returns.
\<close>

partial_function (option) poll_transcript ::
    "(nat \<Rightarrow> py_exc + pyval) \<Rightarrow> (pyval \<Rightarrow> string) \<Rightarrow> nat \<Rightarrow> nat
       \<Rightarrow> ((py_exc + pyval) \<times> nat) option" where
  "poll_transcript server rep i slept =
     (case server i of
        Inl e \<Rightarrow> Some (Inl e, slept)
      | Inr result \<Rightarrow>
          (case py_getitem result ''status'' of
             Inl e \<Rightarrow> Some (Inl e, slept)
           | Inr status \<Rightarrow>
               if status = PStr ''completed'' then Some (Inr result, slept)
               else if status = PStr ''error'' then
                 (case py_get result ''error'' PNone of
                    Inl e \<Rightarrow> Some (Inl e, slept)
                  | Inr err \<Rightarrow>
                      Some (Inl (OtherError (''Transcription failed: '' @ py_str rep err)), slept))
               else poll_transcript server rep (i + 1) (slept + 5)))"

declare poll_transcript.simps [code]

definition get_transcript :: "env \<Rightarrow> pyval \<Rightarrow> ((py_exc + pyval) \<times> nat) option" where
  "get_transcript ev transcript_id = poll_transcript (poll_status ev transcript_id) (py_repr ev) 0 0"

definition transcript_dict :: "pyval \<Rightarrow> py_exc + pyval" where
  "transcript_dict result =
     (case py_getitem result ''text'' of
        Inl e \<Rightarrow> Inl e
      | Inr text \<Rightarrow>
          (case py_get result ''words'' (PList []) of
             Inl e \<Rightarrow> Inl e
           | Inr words \<Rightarrow>
               (case py_get result ''utterances'' (PList []) of
                  Inl e \<Rightarrow> Inl e
                | Inr utterances \<Rightarrow>
                    (case py_get result ''confidence'' (PInt 0) of
                       Inl e \<Rightarrow> Inl e
                     | Inr confidence \<Rightarrow>
                         Inr (PDict [(''text'', text),
                                     (''words'', words),
                                     (''utterances'', utterances),
                                     (''confidence'', confidence)])))))"

definition transcribe :: "env \<Rightarrow> world \<Rightarrow> string \<Rightarrow> (py_exc + pyval) option" where
  "transcribe ev w file_path =
     (case upload_file ev w file_path of
        Inl e \<Rightarrow> Some (Inl e)
      | Inr audio_url \<Rightarrow>
          (case create_transcript ev audio_url of
             Inl e \<Rightarrow> Some (Inl e)
           | Inr transcript_id \<Rightarrow>
               (case get_transcript ev transcript_id of
                  None \<Rightarrow> None
                | Some (Inl e, slept) \<Rightarrow> Some (Inl e)
                | Some (Inr result, slept) \<Rightarrow> Some (transcript_dict result))))"

section \<open>Persistence gateway and file system, as the endpoints use them\<close>

definition has_id :: "string \<Rightarrow> doc \<Rightarrow> bool" where
  "has_id oid d = (map_of d ''_id'' = Some (POid oid))"

text \<open>\<open>insert_one\<close>: the driver assigns the \<open>_id\<close>; the collection refuses a duplicate.\<close>

definition insert_one :: "py_exc option \<Rightarrow> string \<Rightarrow> doc \<Rightarrow> doc list \<Rightarrow> py_exc + doc list" where
  "insert_one fault oid d coll =
     (case fault of
        Some e \<Rightarrow> Inl e
      | None \<Rightarrow>
          if list_ex (has_id oid) coll
          then Inl (OtherError ''E11000 duplicate key error collection'')
          else Inr (coll @ [(''_id'', POid oid) # d]))"

definition set_fields :: "doc \<Rightarrow> doc \<Rightarrow> doc" where
  "set_fields sets d = foldl (\<lambda>acc kv. AList.update (fst kv) (snd kv) acc) d sets"

fun update_first :: "string \<Rightarrow> doc \<Rightarrow> doc list \<Rightarrow> doc list" where
  "update_first oid sets [] = []"
| "update_first oid sets (d # ds) =
     (if has_id oid d then set_fields sets d # ds else d # update_first oid sets ds)"

text \<open>\<open>update_one\<close> with a \<open>_id\<close> filter and a \<open>$set\<close> document.\<close>

definition update_one :: "py_exc option \<Rightarrow> string \<Rightarrow> doc \<Rightarrow> doc list \<Rightarrow> py_exc + doc list" where
  "update_one fault oid sets coll =
     (case fault of Some e \<Rightarrow> Inl e | None \<Rightarrow> Inr (update_first oid sets coll))"

definition find_lecture :: "world \<Rightarrow> string \<Rightarrow> doc option" where
  "find_lecture w oid = find (has_id oid) (lectures_coll w)"

definition references :: "string \<Rightarrow> doc \<Rightarrow> bool" where
  "references lecture_id d = (map_of d ''lecture_id'' = Some (PStr lecture_id))"

definition notes_for :: "world \<Rightarrow> string \<Rightarrow> doc list" where
  "notes_for w lecture_id = filter (references lecture_id) (notes_coll w)"

definition path_exists :: "world \<Rightarrow> string \<Rightarrow> bool" where
  "path_exists w path = (map_of (storage w) path \<noteq> None)"

text \<open>\<open>os.remove\<close>: fails on a missing file, or as the file system decides.\<close>

definition os_remove :: "env \<Rightarrow> world \<Rightarrow> string \<Rightarrow> py_exc + world" where
  "os_remove ev w path =
     (if \<not> path_exists w path
      then Inl (OtherError (''[Errno 2] No such file or directory: '' @ quoted path))
      else (case remove_fault ev of
              Some e \<Rightarrow> Inl e
            | None \<Rightarrow> Inr (w\<lparr>storage := AList.delete path (storage w)\<rparr>)))"

text \<open>\<open>os.path.splitext(p)[1]\<close>: from the last dot of the last path component, unless
  only dots come before it.\<close>

definition splitext_ext :: "string \<Rightarrow> string" where
  "splitext_ext p =
     (let base = rev (takeWhile (\<lambda>c. c \<noteq> CHR ''/'') (rev p));
          tail = rev (takeWhile (\<lambda>c. c \<noteq> CHR ''.'') (rev base));
          stem = take (length base - length tail - 1) base
      in if CHR ''.'' \<notin> set base \<or> (\<forall>c \<in> set stem. c = CHR ''.'') then []
         else CHR ''.'' # tail)"

section \<open>Pipeline coordinator (main.py)\<close>

definition ALLOWED_AUDIO_TYPES :: "string list" where
  "ALLOWED_AUDIO_TYPES = [''audio/mpeg'', ''audio/wav'', ''audio/mp4'', ''audio/x-m4a'', ''audio/webm'']"

definition MAX_FILE_SIZE :: nat where
  "MAX_FILE_SIZE = 100 * 1024 * 1024"

definition UPLOAD_DIR :: string where
  "UPLOAD_DIR = ''uploads''"

record upload =
  content_type :: string
  filename :: "string option"
  content :: string
  title :: "string option"
  user_id :: string

text \<open>
  \<open>gemini_service.generate_notes(transcript_data["text"])\<close>: the argument is whatever
  the transcription provider sent under \<open>text\<close>. \<open>not transcript\<close> rejects every falsy
  value; any other value that is not a str has no \<open>strip\<close>.
\<close>

definition generate_notes_of :: "env \<Rightarrow> pyval \<Rightarrow> py_exc + pyval" where
  "generate_notes_of ev text =
     (case text of
        PStr s \<Rightarrow> fst (generate_notes (gemini ev) (json_loads ev) s)
      | _ \<Rightarrow>
          if \<not> truthy text then Inl (ValueError ''Transcript is too short or empty'')
          else Inl (OtherError (quoted (type_name text) @ '' object has no attribute ''
                                @ quoted ''strip'')))"

definition word_count :: "pyval \<Rightarrow> py_exc + pyval" where
  "word_count text =
     (case text of
        PStr s \<Rightarrow> Inr (PInt (int (length (split s))))
      | _ \<Rightarrow> Inl (OtherError (quoted (type_name text) @ '' object has no attribute ''
                               @ quoted ''split'')))"

text \<open>
  The \<open>try\<close> block either returns the response or raises; the handler then sees which of
  the locals \<open>temp_path\<close> and \<open>lecture_id\<close> were bound when the exception left the block.
\<close>

datatype try_result =
    Returned pyval world
  | Raised py_exc "string option" "string option" world

definition lecture_doc :: "env \<Rightarrow> upload \<Rightarrow> string \<Rightarrow> string \<Rightarrow> doc" where
  "lecture_doc ev req fname temp_path =
     [(''user_id'', PStr (user_id req)),
      (''title'', PStr (case title req of
                            None \<Rightarrow> fname
                          | Some t \<Rightarrow> if t = [] then fname else t)),
      (''filename'', PStr fname),
      (''upload_date'', PDate (now_upload ev)),
      (''status'', PStr ''processing''),
      (''file_size'', PInt (int (length (content req)))),
      (''file_path'', PStr temp_path)]"

definition note_doc :: "env \<Rightarrow> upload \<Rightarrow> string \<Rightarrow> pyval \<Rightarrow> pyval \<Rightarrow> pyval \<Rightarrow> pyval \<Rightarrow> doc" where
  "note_doc ev req lecture_id text confidence words structured_notes =
     [(''lecture_id'', PStr lecture_id),
      (''user_id'', PStr (user_id req)),
      (''transcript'', PDict [(''full_text'', text),
                             (''confidence'', confidence),
                             (''word_count'', words)]),
      (''structured_notes'', structured_notes),
      (''created_at'', PDate (now_created ev)),
      (''last_edited'', PDate (now_edited ev))]"

definition success_response :: "string \<Rightarrow> pyval \<Rightarrow> pyval \<Rightarrow> pyval" where
  "success_response lecture_id ptitle psummary =
     PDict [(''lecture_id'', PStr lecture_id),
            (''status'', PStr ''completed''),
            (''message'', PStr ''Notes generated successfully''),
            (''preview'', PDict [(''title'', ptitle), (''summary'', psummary)])]"

text \<open>The last steps of the \<open>try\<close> block: from the note document to the response.\<close>

definition finalize :: "env \<Rightarrow> string \<Rightarrow> string \<Rightarrow> doc \<Rightarrow> pyval \<Rightarrow> world \<Rightarrow> try_result" where
  "finalize ev temp_path lecture_id nd structured_notes w =
     (case insert_one (insert_note_fault ev) (new_note_id ev) nd (notes_coll w) of
        Inl e \<Rightarrow> Raised e (Some temp_path) (Some lecture_id) w
      | Inr notes' \<Rightarrow>
          let w1 = w\<lparr>notes_coll := notes'\<rparr> in
          (case update_one (update_completed_fault ev) lecture_id
                  [(''status'', PStr ''completed'')] (lectures_coll w1) of
             Inl e \<Rightarrow> Raised e (Some temp_path) (Some lecture_id) w1
           | Inr lectures' \<Rightarrow>
               let w2 = w1\<lparr>lectures_coll := lectures'\<rparr>;
                   w3 = (case os_remove ev w2 temp_path of Inl e \<Rightarrow> w2 | Inr w' \<Rightarrow> w')
               in (case py_get structured_notes ''title'' PNone of
                     Inl e \<Rightarrow> Raised e (Some temp_path) (Some lecture_id) w3
                   | Inr ptitle \<Rightarrow>
                       (case py_get structured_notes ''summary'' PNone of
                          Inl e \<Rightarrow> Raised e (Some temp_path) (Some lecture_id) w3
                        | Inr psummary \<Rightarrow>
                            Returned (success_response lecture_id ptitle psummary) w3))))"

text \<open>Steps 2 and 3 of the \<open>try\<close> block: synthesis and the note document.\<close>

definition synthesize :: "env \<Rightarrow> upload \<Rightarrow> string \<Rightarrow> string \<Rightarrow> pyval \<Rightarrow> world \<Rightarrow> try_result" where
  "synthesize ev req temp_path lecture_id transcript_data w =
     (case py_getitem transcript_data ''text'' of
        Inl e \<Rightarrow> Raised e (Some temp_path) (Some lecture_id) w
      | Inr text \<Rightarrow>
          (case generate_notes_of ev text of
             Inl e \<Rightarrow> Raised e (Some temp_path) (Some lecture_id) w
           | Inr structured_notes \<Rightarrow>
               (case py_getitem transcript_data ''confidence'' of
                  Inl e \<Rightarrow> Raised e (Some temp_path) (Some lecture_id) w
                | Inr confidence \<Rightarrow>
                    (case word_count text of
                       Inl e \<Rightarrow> Raised e (Some temp_path) (Some lecture_id) w
                     | Inr words \<Rightarrow>
                         finalize ev temp_path lecture_id
                           (note_doc ev req lecture_id text confidence words structured_notes)
                           structured_notes w))))"

definition upload_try :: "env \<Rightarrow> upload \<Rightarrow> world \<Rightarrow> try_result option" where
  "upload_try ev req w =
     (case filename req of
        None \<Rightarrow>
          Some (Raised (TypeError ''expected str, bytes or os.PathLike object, not NoneType'')
                  None None w)
      | Some fname \<Rightarrow>
          let temp_path = UPLOAD_DIR @ ''/'' @ now_stamp ev @ splitext_ext fname in
          (case open_fault ev of
             Some e \<Rightarrow> Some (Raised e (Some temp_path) None w)
           | None \<Rightarrow>
               (case write_fault ev of
                  Some e \<Rightarrow>
                    Some (Raised e (Some temp_path) None
                            (w\<lparr>storage := AList.update temp_path [] (storage w)\<rparr>))
                | None \<Rightarrow>
                    let w1 = w\<lparr>storage := AList.update temp_path (content req) (storage w)\<rparr> in
                    (case insert_one (insert_lecture_fault ev) (new_lecture_id ev)
                            (lecture_doc ev req fname temp_path) (lectures_coll w1) of
                       Inl e \<Rightarrow> Some (Raised e (Some temp_path) None w1)
                     | Inr lectures' \<Rightarrow>
                         let w2 = w1\<lparr>lectures_coll := lectures'\<rparr>;
                             lecture_id = new_lecture_id ev
                         in (case transcribe ev w2 temp_path of
                               None \<Rightarrow> None
                             | Some (Inl e) \<Rightarrow>
                                 Some (Raised e (Some temp_path) (Some lecture_id) w2)
                             | Some (Inr transcript_data) \<Rightarrow>
                                 Some (synthesize ev req temp_path lecture_id
                                         transcript_data w2))))))"

text \<open>The handler \<open>except Exception as e\<close>. An exception raised inside it leaves the
  endpoint as it is.\<close>

definition upload_except ::
    "env \<Rightarrow> py_exc \<Rightarrow> string option \<Rightarrow> string option \<Rightarrow> world \<Rightarrow> (py_exc + pyval) \<times> world" where
  "upload_except ev e temp_path lecture_id w =
     (case (case lecture_id of
              None \<Rightarrow> Inr w
            | Some lid \<Rightarrow>
                (case update_one (update_failed_fault ev) lid
                        [(''status'', PStr ''failed''), (''error'', PStr (str_exc e))]
                        (lectures_coll w) of
                   Inl e' \<Rightarrow> Inl e'
                 | Inr lectures' \<Rightarrow> Inr (w\<lparr>lectures_coll := lectures'\<rparr>))) of
        Inl e' \<Rightarrow> (Inl e', w)
      | Inr w1 \<Rightarrow>
          (case temp_path of
             None \<Rightarrow>
               (Inl (NameError (''cannot access local variable '' @ quoted ''temp_path''
                                @ '' where it is not associated with a value'')), w1)
           | Some path \<Rightarrow>
               if path_exists w1 path then
                 (case os_remove ev w1 path of
                    Inl e' \<Rightarrow> (Inl e', w1)
                  | Inr w2 \<Rightarrow> (Inl (HTTPException 500 (str_exc e)), w2))
               else (Inl (HTTPException 500 (str_exc e)), w1)))"

definition upload_lecture :: "env \<Rightarrow> upload \<Rightarrow> world \<Rightarrow> ((py_exc + pyval) \<times> world) option" where
  "upload_lecture ev req w =
     (if content_type req \<notin> set ALLOWED_AUDIO_TYPES then
        Some (Inl (HTTPException 400
                (''Invalid file type. Allowed: '' @ join '', '' ALLOWED_AUDIO_TYPES)), w)
      else if length (content req) > MAX_FILE_SIZE then
        Some (Inl (HTTPException 413 ''File too large. Maximum size: 100.0 MB''), w)
      else
        (case upload_try ev req w of
           None \<Rightarrow> None
         | Some (Returned response w') \<Rightarrow> Some (Inr response, w')
         | Some (Raised e temp_path lecture_id w') \<Rightarrow>
             Some (upload_except ev e temp_path lecture_id w')))"

section \<open>Listing and deleting lectures (main.py)\<close>

text \<open>The sort key of \<open>upload_date\<close>: every date ranks above a missing or other value.\<close>

definition upload_rank :: "doc \<Rightarrow> nat" where
  "upload_rank d = (case map_of d ''upload_date'' of Some (PDate t) \<Rightarrow> Suc t | _ \<Rightarrow> 0)"

text \<open>\<open>find({"user_id": user_id}).sort("upload_date", -1).to_list(100)\<close>.\<close>

definition find_user_lectures :: "string \<Rightarrow> doc list \<Rightarrow> doc list" where
  "find_user_lectures uid coll =
     take 100 (rev (sort_key upload_rank
                      (filter (\<lambda>d. map_of d ''user_id'' = Some (PStr uid)) coll)))"

text \<open>The loop body: \<open>lecture["_id"] = str(lecture["_id"])\<close> and
  \<open>lecture.pop("file_path", None)\<close>.\<close>

definition public_lecture :: "env \<Rightarrow> doc \<Rightarrow> py_exc + doc" where
  "public_lecture ev lecture =
     (case map_of lecture ''_id'' of
        None \<Rightarrow> Inl (KeyError ''_id'')
      | Some oid \<Rightarrow>
          Inr (AList.delete ''file_path''
                 (AList.update ''_id'' (PStr (py_str (py_repr ev) oid)) lecture)))"

fun public_lectures :: "env \<Rightarrow> doc list \<Rightarrow> py_exc + doc list" where
  "public_lectures ev [] = Inr []"
| "public_lectures ev (d # ds) =
     (case public_lecture ev d of
        Inl e \<Rightarrow> Inl e
      | Inr d' \<Rightarrow> (case public_lectures ev ds of Inl e \<Rightarrow> Inl e | Inr ds' \<Rightarrow> Inr (d' # ds')))"

definition get_user_lectures :: "env \<Rightarrow> string \<Rightarrow> world \<Rightarrow> py_exc + doc list" where
  "get_user_lectures ev uid w =
     (case (case find_fault ev of
              Some e \<Rightarrow> Inl e
            | None \<Rightarrow> public_lectures ev (find_user_lectures uid (lectures_coll w))) of
        Inl e \<Rightarrow> Inl (HTTPException 500 (str_exc e))
      | Inr lectures \<Rightarrow> Inr lectures)"

text \<open>\<open>ObjectId(s)\<close>: 24 hexadecimal digits, compared by value.\<close>

definition hex_digit :: "char \<Rightarrow> bool" where
  "hex_digit c = (c \<in> set ''0123456789abcdefABCDEF'')"

definition lower_hex :: "char \<Rightarrow> char" where
  "lower_hex c =
     (case map_of (zip ''ABCDEF'' ''abcdef'') c of None \<Rightarrow> c | Some l \<Rightarrow> l)"

definition ObjectId :: "string \<Rightarrow> py_exc + string" where
  "ObjectId s =
     (if length s = 24 \<and> list_all hex_digit s then Inr (map lower_hex s)
      else Inl (OtherError (quoted s
             @ '' is not a valid ObjectId, it must be a 12-byte input or a 24-character hex string'')))"

text \<open>The \<open>try\<close> block of \<open>delete_lecture\<close>: two writes, the notes first.\<close>

definition delete_try :: "env \<Rightarrow> string \<Rightarrow> world \<Rightarrow> (py_exc + pyval) \<times> world" where
  "delete_try ev lecture_id w =
     (case delete_notes_fault ev of
        Some e \<Rightarrow> (Inl e, w)
      | None \<Rightarrow>
          let w1 = w\<lparr>notes_coll := filter (\<lambda>d. \<not> references lecture_id d) (notes_coll w)\<rparr> in
          (case ObjectId lecture_id of
             Inl e \<Rightarrow> (Inl e, w1)
           | Inr oid \<Rightarrow>
               (case delete_lecture_fault ev of
                  Some e \<Rightarrow> (Inl e, w1)
                | None \<Rightarrow>
                    (case find (has_id oid) (lectures_coll w1) of
                       None \<Rightarrow> (Inl (HTTPException 404 ''Lecture not found''), w1)
                     | Some d \<Rightarrow>
                         (Inr (PDict [(''message'', PStr ''Lecture deleted successfully'')]),
                          w1\<lparr>lectures_coll := remove1 d (lectures_coll w1)\<rparr>)))))"

text \<open>\<open>except Exception as e\<close> catches \<open>HTTPException\<close> as well: it is a subclass.\<close>

definition delete_lecture :: "env \<Rightarrow> string \<Rightarrow> world \<Rightarrow> (py_exc + pyval) \<times> world" where
  "delete_lecture ev lecture_id w =
     (case delete_try ev lecture_id w of
        (Inl e, w') \<Rightarrow> (Inl (HTTPException 500 (str_exc e)), w')
      | (Inr response, w') \<Rightarrow> (Inr response, w'))"

section \<open>Vocabulary of the properties\<close>

text \<open>The value validation leaves under a top-level key: the value that was there, or
  the named default when the key was absent or null.\<close>

definition field_or :: "doc \<Rightarrow> string \<Rightarrow> pyval \<Rightarrow> pyval" where
  "field_or kvs key dflt =
     (case map_of kvs key of None \<Rightarrow> dflt | Some v \<Rightarrow> if v = PNone then dflt else v)"



text \<open>A string in which each of the four section keys occurs as a substring: the only
  kind of string the section loop passes over without raising.\<close>

definition names_all_keys :: "string \<Rightarrow> bool" where
  "names_all_keys s =
     (is_substring ''heading'' s \<and> is_substring ''content'' s
      \<and> is_substring ''bullet_points'' s \<and> is_substring ''timestamp'' s)"

text \<open>The pending polls: a response whose status is neither \<open>completed\<close> nor
  \<open>error\<close>.\<close>

definition pending :: "py_exc + pyval \<Rightarrow> bool" where
  "pending outcome =
     (case outcome of
        Inl e \<Rightarrow> False
      | Inr result \<Rightarrow>
          (case py_getitem result ''status'' of
             Inl e \<Rightarrow> False
           | Inr status \<Rightarrow> status \<noteq> PStr ''completed'' \<and> status \<noteq> PStr ''error''))"

section \<open>Sample inputs\<close>

text \<open>A provider that answers every prompt with the same text, one that always fails,
  and \<open>json.loads\<close> on the one text the examples parse.\<close>

definition canned_gen :: "string \<Rightarrow> string \<Rightarrow> py_exc + string" where
  "canned_gen text prompt = Inr text"

definition failing_gen :: "string \<Rightarrow> string \<Rightarrow> py_exc + string" where
  "failing_gen msg prompt = Inl (OtherError msg)"

definition canned_loads :: "string \<Rightarrow> pyval \<Rightarrow> string \<Rightarrow> py_exc + pyval" where
  "canned_loads text v s =
     (if s = text then Inr v else Inl (ValueError ''Expecting value: line 1 column 1 (char 0)''))"

definition sample_transcript :: string where
  "sample_transcript =
     ''  Today we define the derivative of a function as the limit of a difference quotient.  ''"

definition object_sections_text :: string where
  \<open>object_sections_text = ''{"sections": {"heading content bullet_points timestamp": 1}}''\<close>

definition object_sections_value :: pyval where
  "object_sections_value =
     PDict [(''sections'', PDict [(''heading content bullet_points timestamp'', PInt 1)])]"

definition title_only_text :: string where
  \<open>title_only_text = ''{"title": "Limits"}''\<close>

definition title_only_value :: pyval where
  "title_only_value = PDict [(''title'', PStr ''Limits'')]"

definition one_section_text :: string where
  \<open>one_section_text =
     ''```json'' @ [CHR 0x0A] @ ''{"title": "Limits", "sections": [{"heading": "Intro"}]}''
       @ [CHR 0x0A] @ ''```''\<close>

definition one_section_json :: string where
  \<open>one_section_json = ''{"title": "Limits", "sections": [{"heading": "Intro"}]}''\<close>

definition one_section_value :: pyval where
  "one_section_value =
     PDict [(''title'', PStr ''Limits''),
            (''sections'', PList [PDict [(''heading'', PStr ''Intro'')]])]"

text \<open>A transcription server that answers the polls of every job from a script, and
  with the last entry of the script from then on.\<close>

definition scripted :: "pyval list \<Rightarrow> pyval \<Rightarrow> nat \<Rightarrow> py_exc + pyval" where
  "scripted script transcript_id i =
     Inr (if i < length script then script ! i else last script)"

definition processing_result :: pyval where
  "processing_result = PDict [(''id'', PStr ''job-1''), (''status'', PStr ''processing'')]"

definition completed_result :: pyval where
  "completed_result =
     PDict [(''id'', PStr ''job-1''),
            (''status'', PStr ''completed''),
            (''text'', PStr sample_transcript),
            (''confidence'', PFloat 0x3FEE666666666666)]"

definition error_result :: pyval where
  "error_result =
     PDict [(''id'', PStr ''job-1''),
            (''status'', PStr ''error''),
            (''error'', PStr ''Audio file is corrupt'')]"

text \<open>A run in which every collaborator succeeds: the job completes at the third poll
  and the provider answers with a fenced object of one section.\<close>

definition sample_env :: env where
  "sample_env =
     \<lparr>py_repr = (\<lambda>v. ''<value>''),
      json_loads = canned_loads one_section_json one_section_value,
      gemini = canned_gen one_section_text,
      post_upload = (\<lambda>file_data. Inr (PDict [(''upload_url'', PStr ''https://cdn.example/upload/1'')])),
      post_transcript = (\<lambda>body. Inr (PDict [(''id'', PStr ''job-1'')])),
      poll_status = scripted [processing_result, processing_result, completed_result],
      now_stamp = ''1730000000.5'',
      now_upload = 1730000000,
      now_created = 1730000020,
      now_edited = 1730000020,
      new_lecture_id = ''65a1b2c3d4e5f60718293a4b'',
      new_note_id = ''65a1b2c3d4e5f60718293a4c'',
      open_fault = None,
      write_fault = None,
      insert_lecture_fault = None,
      insert_note_fault = None,
      update_completed_fault = None,
      update_failed_fault = None,
      remove_fault = None,
      delete_notes_fault = None,
      delete_lecture_fault = None,
      find_fault = None\<rparr>"

definition sample_upload :: upload where
  "sample_upload =
     \<lparr>content_type = ''audio/mpeg'',
      filename = Some ''lecture1.mp3'',
      content = ''ID3 audio bytes'',
      title = None,
      user_id = ''default_user''\<rparr>"

definition empty_world :: world where
  "empty_world = \<lparr>lectures_coll = [], notes_coll = [], storage = []\<rparr>"

text \<open>An upload endpoint of the transcription provider that is down, and the documents
  the sample run stores.\<close>

definition unavailable :: "string \<Rightarrow> py_exc + pyval" where
  "unavailable file_data = Inl (OtherError ''503 Service Unavailable'')"

definition sample_lecture :: "string \<Rightarrow> doc" where
  "sample_lecture status =
     [(''_id'', POid ''65a1b2c3d4e5f60718293a4b''),
      (''user_id'', PStr ''default_user''),
      (''title'', PStr ''lecture1.mp3''),
      (''filename'', PStr ''lecture1.mp3''),
      (''upload_date'', PDate 1730000000),
      (''status'', PStr status),
      (''file_size'', PInt 15),
      (''file_path'', PStr ''uploads/1730000000.5.mp3'')]"

definition sample_note :: doc where
  "sample_note =
     [(''_id'', POid ''65a1b2c3d4e5f60718293a4c''),
      (''lecture_id'', PStr ''65a1b2c3d4e5f60718293a4b''),
      (''user_id'', PStr ''default_user''),
      (''transcript'', PDict
         [(''full_text'', PStr sample_transcript),
          (''confidence'', PFloat 0x3FEE666666666666),
          (''word_count'', PInt 15)]),
      (''structured_notes'', PDict
         [(''title'', PStr ''Limits''),
          (''sections'', PList [PDict
             [(''heading'', PStr ''Intro''),
              (''content'', PStr []),
              (''bullet_points'', PList []),
              (''timestamp'', PNone)]]),
          (''summary'', PStr ''Summary unavailable''),
          (''key_terms'', PList []),
          (''formulas'', PList []),
          (''action_items'', PList []),
          (''questions'', PList [])]),
      (''created_at'', PDate 1730000020),
      (''last_edited'', PDate 1730000020)]"

definition sample_response :: pyval where
  "sample_response =
     PDict [(''lecture_id'', PStr ''65a1b2c3d4e5f60718293a4b''),
            (''status'', PStr ''completed''),
            (''message'', PStr ''Notes generated successfully''),
            (''preview'', PDict [(''title'', PStr ''Limits''),
                                (''summary'', PStr ''Summary unavailable'')])]"

text \<open>A note whose lecture is not stored, and lecture documents of two users for the
  listing.\<close>

definition orphan_note :: doc where
  "orphan_note =
     [(''_id'', POid ''65a1b2c3d4e5f60718293a4e''),
      (''lecture_id'', PStr ''65a1b2c3d4e5f60718293a4d''),
      (''user_id'', PStr ''default_user'')]"

definition dated_lecture :: "string \<Rightarrow> string \<Rightarrow> nat \<Rightarrow> doc" where
  "dated_lecture oid uid t =
     [(''_id'', POid oid),
      (''user_id'', PStr uid),
      (''upload_date'', PDate t),
      (''status'', PStr ''completed''),
      (''file_path'', PStr ''uploads/1730000000.5.mp3'')]"

definition listed_lecture :: "string \<Rightarrow> string \<Rightarrow> nat \<Rightarrow> doc" where
  "listed_lecture oid uid t =
     [(''_id'', PStr oid),
      (''user_id'', PStr uid),
      (''upload_date'', PDate t),
      (''status'', PStr ''completed'')]"

definition listing_world :: world where
  "listing_world =
     \<lparr>lectures_coll =
        [dated_lecture ''65a1b2c3d4e5f60718293a01'' ''ada'' 1730000100,
         dated_lecture ''65a1b2c3d4e5f60718293a02'' ''bob'' 1730000200,
         dated_lecture ''65a1b2c3d4e5f60718293a03'' ''ada'' 1730000300],
      notes_coll = [],
      storage = []\<rparr>"

section \<open>Validation of the notes structure\<close>

lemma in_keys_iff: "key \<in> set (map fst kvs) \<longleftrightarrow> map_of kvs key \<noteq> None"
  by (simp add: map_of_eq_None_iff)

lemma ensure_key_dict:
  "\<exists>kvs'. ensure_key key dflt (PDict kvs) = Inr (PDict kvs')
          \<and> map_of kvs' = (map_of kvs)(key \<mapsto> field_or kvs key dflt)"
proof (cases "map_of kvs key")
  case None
  then show ?thesis
    by (simp add: ensure_key_def py_contains_def py_setitem_def field_or_def
        in_keys_iff update_conv' del: set_map)
next
  case (Some v)
  then have "(map_of kvs)(key \<mapsto> v) = map_of kvs"
    by (simp add: map_upd_triv)
  with Some show ?thesis
    by (simp add: ensure_key_def py_contains_def py_setitem_def py_getitem_def field_or_def
        in_keys_iff update_conv' del: set_map)
qed

lemma field_or_cong: "map_of a key = map_of b key \<Longrightarrow> field_or a key d = field_or b key d"
  by (simp add: field_or_def)

text \<open>The first loop never raises on a dict, and leaves under each required key the
  value that was there or the default.\<close>

lemma ensure_keys_dict:
  "distinct (map fst ks) \<Longrightarrow>
   \<exists>kvs'. ensure_keys ks (PDict kvs) = Inr (PDict kvs')
         \<and> (\<forall>k. map_of kvs' k =
                (case map_of ks k of None \<Rightarrow> map_of kvs k | Some d \<Rightarrow> Some (field_or kvs k d)))"
proof (induction ks arbitrary: kvs)
  case Nil
  then show ?case by simp
next
  case (Cons p ks)
  obtain key dflt where p: "p = (key, dflt)" by (cases p)
  from ensure_key_dict obtain kvs1 where
    k1: "ensure_key key dflt (PDict kvs) = Inr (PDict kvs1)"
    and m1: "map_of kvs1 = (map_of kvs)(key \<mapsto> field_or kvs key dflt)"
    by blast
  from Cons.prems p have dist: "distinct (map fst ks)" and fresh: "key \<notin> fst ` set ks"
    by auto
  from Cons.IH [OF dist, of kvs1] obtain kvs' where
    k2: "ensure_keys ks (PDict kvs1) = Inr (PDict kvs')"
    and m2: "\<forall>k. map_of kvs' k =
               (case map_of ks k of None \<Rightarrow> map_of kvs1 k | Some d \<Rightarrow> Some (field_or kvs1 k d))"
    by blast
  have none: "map_of ks key = None"
    using fresh by (simp add: map_of_eq_None_iff)
  have "map_of kvs' k =
          (case map_of (p # ks) k of None \<Rightarrow> map_of kvs k | Some d \<Rightarrow> Some (field_or kvs k d))" for k
  proof (cases "k = key")
    case True
    then show ?thesis using m2 m1 none p by simp
  next
    case False
    then have "field_or kvs1 k d = field_or kvs k d" for d
      using m1 by (intro field_or_cong) simp
    then show ?thesis using False m2 m1 p by (simp split: option.splits)
  qed
  with k1 k2 p show ?case by simp
qed

text \<open>On anything but a dict the first round already raises.\<close>

lemma ensure_key_not_dict:
  assumes "\<forall>kvs. v \<noteq> PDict kvs"
  shows "\<exists>e. ensure_key key dflt v = Inl e"
  using assms
  by (cases v) (simp_all add: ensure_key_def py_contains_def py_setitem_def py_getitem_def)

lemma ensure_keys_Inr_dict:
  assumes "ensure_keys (p # ks) v = Inr v1"
  shows "\<exists>kvs. v = PDict kvs"
proof (rule ccontr)
  assume "\<not> ?thesis"
  then have "\<exists>e. ensure_key (fst p) (snd p) v = Inl e"
    by (intro ensure_key_not_dict) simp
  with assms show False by (cases p) auto
qed




lemma fix_each_length: "fix_each xs = Inr ys \<Longrightarrow> length ys = length xs"
  by (induction xs arbitrary: ys) (auto split: sum.splits)

text \<open>A str passes the four tests only if it contains the four keys, and is then left
  as it is; a single character never does.\<close>

lemma fix_section_str: "fix_section (PStr s) = Inr r \<Longrightarrow> names_all_keys s"
  by (auto simp: fix_section_def default_if_missing_def py_contains_def
        py_setitem_def names_all_keys_def split: if_splits)

lemma fix_each_strs: "fix_each (map PStr ks) = Inr r \<Longrightarrow> \<forall>k \<in> set ks. names_all_keys k"
  by (induction ks arbitrary: r) (auto split: sum.splits dest: fix_section_str)

lemma fix_section_char: "\<exists>e. fix_section (PStr [c]) = Inl e"
  by (simp add: fix_section_def default_if_missing_def py_contains_def py_setitem_def)

lemma fix_sections_shape:
  assumes "truthy secs" and "fix_sections secs = Inr secs'"
  shows "(\<exists>x xs. secs' = PList (x # xs))
       \<or> (\<exists>kv kvs. secs' = PDict (kv # kvs) \<and> (\<forall>k \<in> set (map fst (kv # kvs)). names_all_keys k))"
proof (cases secs)
  case (PList xs)
  with assms obtain xs' where "fix_each xs = Inr xs'" and "secs' = PList xs'" and "xs \<noteq> []"
    by (auto simp: fix_sections_def split: sum.splits)
  moreover from this have "length xs' = length xs"
    by (simp add: fix_each_length)
  ultimately show ?thesis
    by (cases xs') auto
next
  case (PDict kvs)
  have "map (\<lambda>kv. PStr (fst kv)) kvs = map PStr (map fst kvs)"
    by simp
  with assms PDict obtain r where "fix_each (map PStr (map fst kvs)) = Inr r"
    and "secs' = PDict kvs" and "kvs \<noteq> []"
    by (auto simp: fix_sections_def simp del: map_map split: sum.splits)
  moreover from this have "\<forall>k \<in> set (map fst kvs). names_all_keys k"
    by (intro fix_each_strs)
  ultimately show ?thesis
    by (cases kvs) auto
next
  case (PStr s)
  with assms obtain c cs where "s = c # cs" by (cases s) auto
  with assms PStr fix_section_char [of c] show ?thesis
    by (auto simp: fix_sections_def split: sum.splits)
qed (use assms in \<open>auto simp: fix_sections_def\<close>)

lemma required_keys_distinct: "distinct (map fst required_keys)"
  by (simp add: required_keys_def)

text \<open>Validation of a dict, with the first loop resolved.\<close>

lemma validate_dict:
  "\<exists>notes1.
      (\<forall>k. map_of notes1 k =
              (case map_of required_keys k of
                 None \<Rightarrow> map_of kvs k
               | Some d \<Rightarrow> Some (field_or kvs k d)))
    \<and> validate_notes_structure (PDict kvs) =
        (if truthy (field_or kvs ''sections'' (PList []))
         then (case fix_sections (field_or kvs ''sections'' (PList [])) of
                 Inl e \<Rightarrow> Inl e
               | Inr secs' \<Rightarrow> Inr (PDict (AList.update ''sections'' secs' notes1)))
         else Inr (PDict (AList.update ''sections''
                 (PList [overview_section (field_or kvs ''summary'' (PStr ''Summary unavailable''))])
                 notes1)))"
proof -
  from ensure_keys_dict [OF required_keys_distinct] obtain notes1 where
    e: "ensure_keys required_keys (PDict kvs) = Inr (PDict notes1)"
    and m: "\<forall>k. map_of notes1 k =
              (case map_of required_keys k of
                 None \<Rightarrow> map_of kvs k
               | Some d \<Rightarrow> Some (field_or kvs k d))"
    by blast
  have s: "map_of notes1 ''sections'' = Some (field_or kvs ''sections'' (PList []))"
    and u: "map_of notes1 ''summary'' = Some (field_or kvs ''summary'' (PStr ''Summary unavailable''))"
    using m by (simp_all add: required_keys_def)
  have "validate_notes_structure (PDict kvs) =
        (if truthy (field_or kvs ''sections'' (PList []))
         then (case fix_sections (field_or kvs ''sections'' (PList [])) of
                 Inl e \<Rightarrow> Inl e
               | Inr secs' \<Rightarrow> Inr (PDict (AList.update ''sections'' secs' notes1)))
         else Inr (PDict (AList.update ''sections''
                 (PList [overview_section (field_or kvs ''summary'' (PStr ''Summary unavailable''))])
                 notes1)))"
    by (simp add: validate_notes_structure_def e py_getitem_def py_setitem_def s u
          split: sum.splits)
  with m show ?thesis by blast
qed

lemma validate_Inr_dict:
  assumes "validate_notes_structure v = Inr out"
  shows "\<exists>kvs. v = PDict kvs"
proof -
  from assms obtain v1 where "ensure_keys required_keys v = Inr v1"
    by (auto simp: validate_notes_structure_def split: sum.splits)
  then show ?thesis
    unfolding required_keys_def by (rule ensure_keys_Inr_dict)
qed

text \<open>What every successful validation returns: a dict with the seven keys, whose
  \<open>sections\<close> is a non-empty list or a non-empty dict of a special form.\<close>

lemma validate_Inr_shape:
  assumes "validate_notes_structure v = Inr out"
  shows "\<exists>kvs'. out = PDict kvs'
          \<and> {''title'', ''summary'', ''sections'', ''key_terms'', ''formulas'',
              ''action_items'', ''questions''} \<subseteq> dom (map_of kvs')
          \<and> (\<exists>secs. map_of kvs' ''sections'' = Some secs
                \<and> ((\<exists>x xs. secs = PList (x # xs))
                   \<or> (\<exists>kv kvs. secs = PDict (kv # kvs)
                         \<and> (\<forall>k \<in> set (map fst (kv # kvs)). names_all_keys k))))"
proof -
  from validate_Inr_dict [OF assms] obtain kvs where v: "v = PDict kvs" by blast
  from validate_dict [of kvs] obtain notes1 where
    m: "\<forall>k. map_of notes1 k =
              (case map_of required_keys k of
                 None \<Rightarrow> map_of kvs k
               | Some d \<Rightarrow> Some (field_or kvs k d))"
    and eq: "validate_notes_structure (PDict kvs) =
        (if truthy (field_or kvs ''sections'' (PList []))
         then (case fix_sections (field_or kvs ''sections'' (PList [])) of
                 Inl e \<Rightarrow> Inl e
               | Inr secs' \<Rightarrow> Inr (PDict (AList.update ''sections'' secs' notes1)))
         else Inr (PDict (AList.update ''sections''
                 (PList [overview_section (field_or kvs ''summary'' (PStr ''Summary unavailable''))])
                 notes1)))"
    by blast
  have keys: "{''title'', ''summary'', ''sections'', ''key_terms'', ''formulas'',
              ''action_items'', ''questions''} \<subseteq> dom (map_of (AList.update ''sections'' x notes1))" for x
    using m by (auto simp: update_conv' required_keys_def)
  show ?thesis
  proof (cases "truthy (field_or kvs ''sections'' (PList []))")
    case True
    with eq assms v obtain secs' where
      f: "fix_sections (field_or kvs ''sections'' (PList [])) = Inr secs'"
      and out: "out = PDict (AList.update ''sections'' secs' notes1)"
      by (auto split: sum.splits)
    from fix_sections_shape [OF True f] out keys [of secs'] show ?thesis
      by (simp add: update_conv')
  next
    case False
    with eq assms v have "out = PDict (AList.update ''sections''
                 (PList [overview_section (field_or kvs ''summary'' (PStr ''Summary unavailable''))])
                 notes1)"
      by simp
    with keys show ?thesis
      by (simp add: update_conv')
  qed
qed



section \<open>Note synthesis\<close>

lemma create_fallback_notes_shape:
  "\<exists>kvs'. create_fallback_notes t msg = PDict kvs'
      \<and> {''title'', ''summary'', ''sections'', ''key_terms'', ''formulas'',
          ''action_items'', ''questions''} \<subseteq> dom (map_of kvs')
      \<and> (\<exists>x. map_of kvs' ''sections'' = Some (PList [x]))"
  by (simp add: create_fallback_notes_def Let_def)

text \<open>
  C2, as the code has it. For every transcript whose trimmed length is at least 50,
  whatever the provider and the parser return, \<open>generate_notes\<close> returns a dict in which
  the seven top-level keys are present and \<open>sections\<close> is non-empty: a non-empty list,
  or else a non-empty object all of whose keys contain the four section keys as
  substrings (an object the provider sent under \<open>sections\<close>, which the section loop
  passes over unchanged).
\<close>

theorem generate_notes_well_formed:
  assumes "50 \<le> length (strip transcript)"
  shows "\<exists>kvs'. fst (generate_notes gen loads transcript) = Inr (PDict kvs')
          \<and> {''title'', ''summary'', ''sections'', ''key_terms'', ''formulas'',
              ''action_items'', ''questions''} \<subseteq> dom (map_of kvs')
          \<and> (\<exists>secs. map_of kvs' ''sections'' = Some secs
                \<and> ((\<exists>x xs. secs = PList (x # xs))
                   \<or> (\<exists>kv kvs. secs = PDict (kv # kvs)
                         \<and> (\<forall>k \<in> set (map fst (kv # kvs)). names_all_keys k))))"
proof -
  from assms have long: "\<not> (transcript = [] \<or> length (strip transcript) < 50)"
    by (auto simp: strip_def rstrip_def)
  define staged where "staged =
     (case gen (create_prompt (truncate_transcript transcript)) of
        Inl e \<Rightarrow> Inl e
      | Inr response_text \<Rightarrow>
          (case extract_json_from_response loads response_text of
             Inl e \<Rightarrow> Inl e
           | Inr v \<Rightarrow> validate_notes_structure v))"
  show ?thesis
  proof (cases staged)
    case (Inl e)
    with long have "fst (generate_notes gen loads transcript)
        = Inr (create_fallback_notes (truncate_transcript transcript) (str_exc e))"
      by (simp add: generate_notes_def generate_notes_sync_def Let_def staged_def)
    with create_fallback_notes_shape [of "truncate_transcript transcript" "str_exc e"]
    show ?thesis by auto
  next
    case (Inr out)
    then obtain v where "validate_notes_structure v = Inr out"
      by (auto simp: staged_def split: sum.splits)
    from validate_Inr_shape [OF this] Inr long show ?thesis
      by (simp add: generate_notes_def generate_notes_sync_def Let_def staged_def)
  qed
qed

theorem generate_notes_well_formed_witness:
  "50 \<le> length (strip sample_transcript)
   \<and> fst (generate_notes (canned_gen one_section_text)
            (canned_loads one_section_json one_section_value) sample_transcript) =
       Inr (PDict
         [(''title'', PStr ''Limits''),
          (''sections'', PList [PDict
             [(''heading'', PStr ''Intro''),
              (''content'', PStr []),
              (''bullet_points'', PList []),
              (''timestamp'', PNone)]]),
          (''summary'', PStr ''Summary unavailable''),
          (''key_terms'', PList []),
          (''formulas'', PList []),
          (''action_items'', PList []),
          (''questions'', PList [])])"
proof -
  have h: "50 \<le> length (strip sample_transcript)"
    by code_simp
  have c: "fst (generate_notes (canned_gen one_section_text)
            (canned_loads one_section_json one_section_value) sample_transcript) =
       Inr (PDict
         [(''title'', PStr ''Limits''),
          (''sections'', PList [PDict
             [(''heading'', PStr ''Intro''),
              (''content'', PStr []),
              (''bullet_points'', PList []),
              (''timestamp'', PNone)]]),
          (''summary'', PStr ''Summary unavailable''),
          (''key_terms'', PList []),
          (''formulas'', PList []),
          (''action_items'', PList []),
          (''questions'', PList [])])"
    by code_simp
  from generate_notes_well_formed
         [OF h, of "canned_gen one_section_text" "canned_loads one_section_json one_section_value"]
       h c
  show ?thesis by blast
qed

text \<open>
  C2 as stated fails: a provider that sends an object under \<open>sections\<close> whose one key
  contains the four section keys gets that object back, and an object is not a sequence.
\<close>

theorem generate_notes_sections_not_sequence:
  "50 \<le> length (strip sample_transcript)
   \<and> fst (generate_notes (canned_gen object_sections_text)
            (canned_loads object_sections_text object_sections_value) sample_transcript) =
       Inr (PDict
         [(''sections'', PDict [(''heading content bullet_points timestamp'', PInt 1)]),
          (''title'', PStr ''Untitled Lecture''),
          (''summary'', PStr ''Summary unavailable''),
          (''key_terms'', PList []),
          (''formulas'', PList []),
          (''action_items'', PList []),
          (''questions'', PList [])])"
  by code_simp

text \<open>
  C3. A transcript whose trimmed length is below 50 makes \<open>generate_notes\<close> raise
  \<open>ValueError\<close> to its caller, and no prompt is sent to the provider.
\<close>

theorem generate_notes_short_transcript:
  assumes "length (strip transcript) < 50"
  shows "generate_notes gen loads transcript =
           (Inl (ValueError ''Transcript is too short or empty''), [])"
  using assms by (simp add: generate_notes_def generate_notes_sync_def)

theorem generate_notes_short_transcript_witness:
  "length (strip ''   hello class   '') < 50
   \<and> generate_notes (canned_gen title_only_text) (canned_loads title_only_text title_only_value)
       ''   hello class   '' = (Inl (ValueError ''Transcript is too short or empty''), [])"
proof -
  have h: "length (strip ''   hello class   '') < 50"
    by code_simp
  from generate_notes_short_transcript
         [OF h, of "canned_gen title_only_text" "canned_loads title_only_text title_only_value"] h
  show ?thesis by blast
qed

text \<open>
  C4, as the code has it. For a transcript that passes the length check, an exception
  raised by the provider call, by the extraction or by the validation is caught, and
  \<open>generate_notes\<close> returns the fallback notes built from the (length-guarded) transcript
  and the message of the exception: the fixed title, the summary ending in the first 100
  characters of the message, one section \<open>Transcript Preview\<close> whose content is the
  transcript itself when it has at most 100 words and else its first 100 words joined
  by single spaces and followed by three dots, empty \<open>key_terms\<close>, \<open>formulas\<close> and
  \<open>questions\<close>, and the one action item.
\<close>

theorem generate_notes_fallback:
  assumes "50 \<le> length (strip transcript)"
  shows
   "(\<forall>e. gen (create_prompt (truncate_transcript transcript)) = Inl e \<longrightarrow>
        generate_notes gen loads transcript =
          (Inr (create_fallback_notes (truncate_transcript transcript) (str_exc e)),
           [create_prompt (truncate_transcript transcript)]))
    \<and> (\<forall>r e. gen (create_prompt (truncate_transcript transcript)) = Inr r
             \<and> extract_json_from_response loads r = Inl e \<longrightarrow>
        generate_notes gen loads transcript =
          (Inr (create_fallback_notes (truncate_transcript transcript) (str_exc e)),
           [create_prompt (truncate_transcript transcript)]))
    \<and> (\<forall>r v e. gen (create_prompt (truncate_transcript transcript)) = Inr r
             \<and> extract_json_from_response loads r = Inr v
             \<and> validate_notes_structure v = Inl e \<longrightarrow>
        generate_notes gen loads transcript =
          (Inr (create_fallback_notes (truncate_transcript transcript) (str_exc e)),
           [create_prompt (truncate_transcript transcript)]))
    \<and> (\<forall>msg. create_fallback_notes (truncate_transcript transcript) msg =
        PDict
          [(''title'', PStr ''Lecture Notes (Auto-generated)''),
           (''summary'',
              PStr (''Automatic transcription available. Manual review recommended. Error: ''
                    @ take 100 msg)),
           (''sections'', PList [PDict
              [(''heading'', PStr ''Transcript Preview''),
               (''content'', PStr
                  (if length (split (truncate_transcript transcript)) \<le> 100
                   then truncate_transcript transcript
                   else join '' '' (take 100 (split (truncate_transcript transcript))) @ ''...'')),
               (''bullet_points'', PList
                  [PStr ''Full transcript available'',
                   PStr ''AI note generation encountered an error'',
                   PStr ''Please review the raw transcript'']),
               (''timestamp'', PNone)]]),
           (''key_terms'', PList []),
           (''formulas'', PList []),
           (''action_items'', PList [PStr ''Review full transcript manually'']),
           (''questions'', PList [])])"
proof -
  from assms have long: "\<not> (transcript = [] \<or> length (strip transcript) < 50)"
    by (auto simp: strip_def rstrip_def)
  then show ?thesis
    by (simp add: generate_notes_def generate_notes_sync_def Let_def create_fallback_notes_def)
qed

theorem generate_notes_fallback_witness:
  "50 \<le> length (strip sample_transcript)
   \<and> failing_gen ''503 Service Unavailable'' (create_prompt (truncate_transcript sample_transcript))
       = Inl (OtherError ''503 Service Unavailable'')
   \<and> fst (generate_notes (failing_gen ''503 Service Unavailable'')
            (canned_loads title_only_text title_only_value) sample_transcript) =
       Inr (create_fallback_notes (truncate_transcript sample_transcript)
              ''503 Service Unavailable'')"
proof -
  have h: "50 \<le> length (strip sample_transcript)"
    by code_simp
  have f: "failing_gen ''503 Service Unavailable''
             (create_prompt (truncate_transcript sample_transcript))
           = Inl (OtherError ''503 Service Unavailable'')"
    by (simp add: failing_gen_def)
  from generate_notes_fallback
         [OF h, of "failing_gen ''503 Service Unavailable''"
            "canned_loads title_only_text title_only_value"] f
  have "generate_notes (failing_gen ''503 Service Unavailable'')
            (canned_loads title_only_text title_only_value) sample_transcript =
          (Inr (create_fallback_notes (truncate_transcript sample_transcript)
                  (str_exc (OtherError ''503 Service Unavailable''))),
           [create_prompt (truncate_transcript sample_transcript)])"
    by blast
  with h f show ?thesis by simp
qed

text \<open>
  C4 as stated fails for a schema-incomplete response: an object with only a title is
  not a failure. Validation fills it in and \<open>generate_notes\<close> returns it, not the
  fallback notes.
\<close>

theorem generate_notes_incomplete_not_fallback:
  "50 \<le> length (strip sample_transcript)
   \<and> fst (generate_notes (canned_gen title_only_text)
            (canned_loads title_only_text title_only_value) sample_transcript) =
       Inr (PDict
         [(''title'', PStr ''Limits''),
          (''summary'', PStr ''Summary unavailable''),
          (''sections'', PList [PDict
             [(''heading'', PStr ''Overview''),
              (''content'', PStr ''Summary unavailable''),
              (''bullet_points'', PList [PStr ''See transcript for full details'']),
              (''timestamp'', PNone)]]),
          (''key_terms'', PList []),
          (''formulas'', PList []),
          (''action_items'', PList []),
          (''questions'', PList [])])"
  by code_simp

section \<open>Polling for the transcript\<close>

lemma poll_pending_step:
  "pending (server i) \<Longrightarrow>
   poll_transcript server rep i slept = poll_transcript server rep (Suc i) (slept + 5)"
  by (subst poll_transcript.simps) (auto simp: pending_def split: sum.splits)

text \<open>Polls that are pending are skipped, each at the price of one sleep of 5 seconds.\<close>

lemma poll_skip:
  "\<forall>j<n. pending (server (i + j)) \<Longrightarrow>
   poll_transcript server rep i slept = poll_transcript server rep (i + n) (slept + 5 * n)"
proof (induction n arbitrary: i slept)
  case 0
  then show ?case by simp
next
  case (Suc n)
  from Suc.prems have "pending (server i)"
    by (metis add.right_neutral zero_less_Suc)
  then have "poll_transcript server rep i slept = poll_transcript server rep (Suc i) (slept + 5)"
    by (rule poll_pending_step)
  also have "\<dots> = poll_transcript server rep (Suc i + n) (slept + 5 + 5 * n)"
  proof (rule Suc.IH)
    show "\<forall>j<n. pending (server (Suc i + j))"
      using Suc.prems by (metis Suc_less_eq add_Suc_shift)
  qed
  finally show ?case by (simp add: add.assoc)
qed

text \<open>A loop that returns has met a poll that was not pending.\<close>

lemma poll_returns_not_pending:
  assumes "poll_transcript server rep i slept = Some y"
  shows "\<exists>j. \<not> pending (server j)"
proof (rule poll_transcript.raw_induct
         [where P = "\<lambda>server rep i slept y. \<exists>j. \<not> pending (server j)", OF _ assms],
       goal_cases)
  case (1 poll server rep i slept y)
  show ?case
  proof (cases "pending (server i)")
    case True
    with 1(2) have "poll server rep (i + 1) (slept + 5) = Some y"
      by (auto simp: pending_def split: sum.splits)
    then show ?thesis by (rule 1(1))
  next
    case False
    then show ?thesis by blast
  qed
qed

lemma poll_never_returns:
  "\<forall>j. pending (server j) \<Longrightarrow> poll_transcript server rep i slept = None"
  using poll_returns_not_pending [of server rep i slept] by (cases "poll_transcript server rep i slept") auto

text \<open>
  C6. \<open>get_transcript\<close> sleeps 5 seconds after every poll that is pending. If the
  first \<open>n\<close> polls are pending and poll \<open>n\<close> says \<open>completed\<close>, it returns that
  result after \<open>5 * n\<close> seconds of sleep; if poll \<open>n\<close> says \<open>error\<close>, it raises an
  exception whose message carries the provider's error; if every poll is pending it
  never returns.
\<close>

theorem get_transcript_polling:
  assumes "\<forall>i<n. pending (poll_status ev tid i)"
  shows
   "(\<forall>result. poll_status ev tid n = Inr result
          \<and> py_getitem result ''status'' = Inr (PStr ''completed'') \<longrightarrow>
        get_transcript ev tid = Some (Inr result, 5 * n))
    \<and> (\<forall>result err. poll_status ev tid n = Inr result
          \<and> py_getitem result ''status'' = Inr (PStr ''error'')
          \<and> py_get result ''error'' PNone = Inr err \<longrightarrow>
        get_transcript ev tid =
          Some (Inl (OtherError (''Transcription failed: '' @ py_str (py_repr ev) err)), 5 * n))
    \<and> ((\<forall>i. pending (poll_status ev tid i)) \<longrightarrow> get_transcript ev tid = None)"
proof -
  from assms have skip:
    "get_transcript ev tid = poll_transcript (poll_status ev tid) (py_repr ev) n (5 * n)"
    unfolding get_transcript_def
    using poll_skip [of n "poll_status ev tid" 0 "py_repr ev" 0] by simp
  have "get_transcript ev tid = Some (Inr result, 5 * n)"
    if "poll_status ev tid n = Inr result"
      and "py_getitem result ''status'' = Inr (PStr ''completed'')" for result
    unfolding skip using that by (subst poll_transcript.simps) simp
  moreover have "get_transcript ev tid =
          Some (Inl (OtherError (''Transcription failed: '' @ py_str (py_repr ev) err)), 5 * n)"
    if "poll_status ev tid n = Inr result"
      and "py_getitem result ''status'' = Inr (PStr ''error'')"
      and "py_get result ''error'' PNone = Inr err" for result err
    unfolding skip using that by (subst poll_transcript.simps) simp
  moreover have "get_transcript ev tid = None" if "\<forall>i. pending (poll_status ev tid i)"
    unfolding get_transcript_def using that by (rule poll_never_returns)
  ultimately show ?thesis by blast
qed

theorem get_transcript_polling_witness:
  "pending (poll_status sample_env (PStr ''job-1'') 0)
   \<and> pending (poll_status sample_env (PStr ''job-1'') 1)
   \<and> poll_status sample_env (PStr ''job-1'') 2 = Inr completed_result
   \<and> py_getitem completed_result ''status'' = Inr (PStr ''completed'')
   \<and> get_transcript sample_env (PStr ''job-1'') = Some (Inr completed_result, 10)
   \<and> poll_status (sample_env\<lparr>poll_status := scripted [processing_result, error_result]\<rparr>)
        (PStr ''job-1'') 1 = Inr error_result
   \<and> get_transcript (sample_env\<lparr>poll_status := scripted [processing_result, error_result]\<rparr>)
        (PStr ''job-1'') =
       Some (Inl (OtherError ''Transcription failed: Audio file is corrupt''), 5)
   \<and> get_transcript (sample_env\<lparr>poll_status := scripted [processing_result]\<rparr>)
        (PStr ''job-1'') = None"
proof -
  have p: "pending (Inr processing_result)"
    by (simp add: pending_def processing_result_def py_getitem_def)
  have s0: "poll_status sample_env (PStr ''job-1'') 0 = Inr processing_result"
    and s1: "poll_status sample_env (PStr ''job-1'') 1 = Inr processing_result"
    and s2: "poll_status sample_env (PStr ''job-1'') 2 = Inr completed_result"
    by (simp_all add: sample_env_def scripted_def)
  have c: "py_getitem completed_result ''status'' = Inr (PStr ''completed'')"
    by (simp add: completed_result_def py_getitem_def)
  have a2: "\<forall>i<2. pending (poll_status sample_env (PStr ''job-1'') i)"
    using p s0 s1 by (auto simp: less_Suc_eq numeral_2_eq_2)
  from get_transcript_polling [OF a2] s2 c
  have r1: "get_transcript sample_env (PStr ''job-1'') = Some (Inr completed_result, 10)"
    by simp
  let ?failing = "sample_env\<lparr>poll_status := scripted [processing_result, error_result]\<rparr>"
  have e0: "poll_status ?failing (PStr ''job-1'') 0 = Inr processing_result"
    and e1: "poll_status ?failing (PStr ''job-1'') 1 = Inr error_result"
    by (simp_all add: scripted_def)
  have a1: "\<forall>i<1. pending (poll_status ?failing (PStr ''job-1'') i)"
    using p e0 by simp
  have e: "py_getitem error_result ''status'' = Inr (PStr ''error'')"
    "py_get error_result ''error'' PNone = Inr (PStr ''Audio file is corrupt'')"
    by (simp_all add: error_result_def py_getitem_def py_get_def dict_get_def)
  from get_transcript_polling [OF a1] e1 e
  have r2: "get_transcript ?failing (PStr ''job-1'') =
       Some (Inl (OtherError ''Transcription failed: Audio file is corrupt''), 5)"
    by (simp add: py_str_def)
  let ?stuck = "sample_env\<lparr>poll_status := scripted [processing_result]\<rparr>"
  have st: "\<forall>i. pending (poll_status ?stuck (PStr ''job-1'') i)"
    using p by (simp add: scripted_def)
  have a0: "\<forall>i<0. pending (poll_status ?stuck (PStr ''job-1'') i)"
    by simp
  from get_transcript_polling [OF a0] st
  have r3: "get_transcript ?stuck (PStr ''job-1'') = None"
    by blast
  from p s0 s1 s2 c r1 e1 r2 r3 show ?thesis by simp
qed

section \<open>The upload pipeline\<close>

lemma generate_notes_Inr_dict:
  assumes "fst (generate_notes gen loads s) = Inr sn"
  shows "\<exists>kvs. sn = PDict kvs"
proof -
  define staged where "staged =
     (case gen (create_prompt (truncate_transcript s)) of
        Inl e \<Rightarrow> Inl e
      | Inr response_text \<Rightarrow>
          (case extract_json_from_response loads response_text of
             Inl e \<Rightarrow> Inl e
           | Inr v \<Rightarrow> validate_notes_structure v))"
  from assms have long: "\<not> (s = [] \<or> length (strip s) < 50)"
    by (auto simp: generate_notes_def generate_notes_sync_def split: if_splits)
  show ?thesis
  proof (cases staged)
    case (Inl e)
    with long assms have "sn = create_fallback_notes (truncate_transcript s) (str_exc e)"
      by (simp add: generate_notes_def generate_notes_sync_def Let_def staged_def)
    then show ?thesis
      by (simp add: create_fallback_notes_def Let_def)
  next
    case (Inr out)
    then obtain v where "validate_notes_structure v = Inr out"
      by (auto simp: staged_def split: sum.splits)
    from validate_Inr_shape [OF this] obtain kvs where "out = PDict kvs" by blast
    with Inr long assms show ?thesis
      by (auto simp: generate_notes_def generate_notes_sync_def Let_def staged_def)
  qed
qed

lemma generate_notes_of_Inr_dict:
  "generate_notes_of ev text = Inr sn \<Longrightarrow> \<exists>kvs. sn = PDict kvs"
  by (cases "text") (auto simp: generate_notes_of_def dest: generate_notes_Inr_dict split: if_splits)

subsection \<open>What the \<open>try\<close> block leaves in the two collections\<close>

lemma finalize_collections:
  assumes "update_completed_fault ev = None"
  shows "case finalize ev tp lid nd (PDict kvs) w of
           Returned v w' \<Rightarrow>
             lectures_coll w' = update_first lid [(''status'', PStr ''completed'')] (lectures_coll w)
             \<and> notes_coll w' = notes_coll w @ [(''_id'', POid (new_note_id ev)) # nd]
         | Raised e tp' lid' w' \<Rightarrow>
             lid' = Some lid \<and> lectures_coll w' = lectures_coll w \<and> notes_coll w' = notes_coll w"
  using assms
  by (auto simp: finalize_def insert_one_def update_one_def os_remove_def py_get_def Let_def
        split: option.splits sum.splits)

lemma synthesize_collections:
  assumes "update_completed_fault ev = None"
  shows "case synthesize ev req tp lid td w of
           Returned v w' \<Rightarrow>
             lectures_coll w' = update_first lid [(''status'', PStr ''completed'')] (lectures_coll w)
             \<and> (\<exists>nd. references lid nd \<and> notes_coll w' = notes_coll w @ [nd])
         | Raised e tp' lid' w' \<Rightarrow>
             lid' = Some lid \<and> lectures_coll w' = lectures_coll w \<and> notes_coll w' = notes_coll w"
proof -
  have fin: "case finalize ev tp lid (note_doc ev req lid tval conf words sn) sn w of
           Returned v w' \<Rightarrow>
             lectures_coll w' = update_first lid [(''status'', PStr ''completed'')] (lectures_coll w)
             \<and> (\<exists>nd. references lid nd \<and> notes_coll w' = notes_coll w @ [nd])
         | Raised e tp' lid' w' \<Rightarrow>
             lid' = Some lid \<and> lectures_coll w' = lectures_coll w \<and> notes_coll w' = notes_coll w"
    if "generate_notes_of ev tval = Inr sn" for tval conf words sn
  proof -
    from generate_notes_of_Inr_dict [OF that] obtain kvs where sn: "sn = PDict kvs" by blast
    have "references lid ((''_id'', POid (new_note_id ev)) # note_doc ev req lid tval conf words sn)"
      by (simp add: references_def note_doc_def)
    with finalize_collections
           [OF assms, where tp = tp and lid = lid and kvs = kvs and w = w
              and nd = "note_doc ev req lid tval conf words sn"] sn
    show ?thesis
      by (auto split: try_result.splits)
  qed
  show ?thesis
    unfolding synthesize_def
    by (auto split: sum.splits intro: fin)
qed


lemma upload_try_collections:
  assumes "update_completed_fault ev = None" and "upload_try ev req w = Some tr"
  shows "case tr of
           Returned v w' \<Rightarrow>
             \<not> list_ex (has_id (new_lecture_id ev)) (lectures_coll w)
             \<and> (\<exists>d. has_id (new_lecture_id ev) d
                   \<and> lectures_coll w' =
                       update_first (new_lecture_id ev) [(''status'', PStr ''completed'')]
                         (lectures_coll w @ [d]))
             \<and> (\<exists>nd. references (new_lecture_id ev) nd \<and> notes_coll w' = notes_coll w @ [nd])
         | Raised e tp' None w' \<Rightarrow>
             lectures_coll w' = lectures_coll w \<and> notes_coll w' = notes_coll w
         | Raised e tp' (Some l) w' \<Rightarrow>
             l = new_lecture_id ev
             \<and> \<not> list_ex (has_id (new_lecture_id ev)) (lectures_coll w)
             \<and> (\<exists>d. has_id (new_lecture_id ev) d \<and> lectures_coll w' = lectures_coll w @ [d])
             \<and> notes_coll w' = notes_coll w"
proof (cases "filename req")
  case None
  with assms(2) show ?thesis
    by (auto simp: upload_try_def)
next
  case (Some fname)
  define tp where "tp = UPLOAD_DIR @ CHR ''/'' # now_stamp ev @ splitext_ext fname"
  define w1 where "w1 = w\<lparr>storage := AList.update tp (content req) (storage w)\<rparr>"
  define d where "d = (''_id'', POid (new_lecture_id ev)) # lecture_doc ev req fname tp"
  define w2 where "w2 = w1\<lparr>lectures_coll := lectures_coll w @ [d]\<rparr>"
  have hd: "has_id (new_lecture_id ev) d"
    by (simp add: d_def has_id_def)
  show ?thesis
  proof (cases "open_fault ev = None \<and> write_fault ev = None \<and> insert_lecture_fault ev = None
                  \<and> \<not> list_ex (has_id (new_lecture_id ev)) (lectures_coll w)")
    case False
    with assms(2) Some show ?thesis
      by (auto simp: upload_try_def insert_one_def Let_def split: option.splits if_splits)
  next
    case True
    have tr:
      "(case transcribe ev w2 tp of
          None \<Rightarrow> None
        | Some (Inl e) \<Rightarrow> Some (Raised e (Some tp) (Some (new_lecture_id ev)) w2)
        | Some (Inr td) \<Rightarrow> Some (synthesize ev req tp (new_lecture_id ev) td w2)) = Some tr"
      unfolding tp_def w1_def d_def w2_def
      using assms(2) Some True
      by (simp add: upload_try_def insert_one_def Let_def)
    have w2: "lectures_coll w2 = lectures_coll w @ [d]" "notes_coll w2 = notes_coll w"
      by (simp_all add: w2_def w1_def)
    show ?thesis
    proof (cases "transcribe ev w2 tp")
      case None
      with tr show ?thesis by simp
    next
      case (Some outcome)
      show ?thesis
      proof (cases outcome)
        case (Inl e)
        with tr Some True hd w2 show ?thesis by auto
      next
        case (Inr td)
        with tr Some have "synthesize ev req tp (new_lecture_id ev) td w2 = tr" by simp
        with synthesize_collections
               [OF assms(1), where req = req and tp = tp and lid = "new_lecture_id ev"
                  and td = td and w = w2] True hd w2
        show ?thesis
          by (auto split: try_result.splits)
      qed
    qed
  qed
qed

lemma update_first_append:
  "\<not> list_ex (has_id lid) coll \<Longrightarrow> has_id lid d \<Longrightarrow>
   update_first lid sets (coll @ [d]) = coll @ [set_fields sets d]"
  by (induction coll) auto

lemma find_append_fresh:
  "\<not> list_ex (has_id lid) coll \<Longrightarrow> has_id lid d \<Longrightarrow> find (has_id lid) (coll @ [d]) = Some d"
  by (induction coll) auto

lemma find_fresh_None: "\<not> list_ex (has_id lid) coll \<longleftrightarrow> find (has_id lid) coll = None"
  by (induction coll) auto

lemma set_completed:
  "has_id lid d \<Longrightarrow>
   has_id lid (set_fields [(''status'', PStr ''completed'')] d)
   \<and> map_of (set_fields [(''status'', PStr ''completed'')] d) ''status'' = Some (PStr ''completed'')"
  by (simp add: set_fields_def has_id_def update_conv')

lemma set_failed:
  "has_id lid d \<Longrightarrow>
   has_id lid (set_fields [(''status'', PStr ''failed''), (''error'', PStr msg)] d)
   \<and> map_of (set_fields [(''status'', PStr ''failed''), (''error'', PStr msg)] d) ''status''
        = Some (PStr ''failed'')"
  by (simp add: set_fields_def has_id_def update_conv')

subsection \<open>What the handler leaves\<close>

lemma upload_except_collections:
  assumes "upload_except ev e tp lid w = (res, w')"
  shows "notes_coll w' = notes_coll w"
    and "lid = None \<Longrightarrow> lectures_coll w' = lectures_coll w"
    and "update_failed_fault ev = None \<Longrightarrow> lid = Some l \<Longrightarrow>
         lectures_coll w' =
           update_first l [(''status'', PStr ''failed''), (''error'', PStr (str_exc e))]
             (lectures_coll w)"
  using assms
  by (auto simp: upload_except_def update_one_def os_remove_def path_exists_def
        split: option.splits sum.splits if_splits)

text \<open>The status of the lecture the run created, and the notes that reference it.\<close>

lemma upload_lecture_status:
  assumes run: "upload_lecture ev req w = Some (res, w')"
    and fresh: "find_lecture w (new_lecture_id ev) = None"
    and no_notes: "notes_for w (new_lecture_id ev) = []"
    and completed_ok: "update_completed_fault ev = None"
    and failed_ok: "update_failed_fault ev = None"
    and created: "find_lecture w' (new_lecture_id ev) = Some d"
  shows "(map_of d ''status'' = Some (PStr ''completed'')
            \<and> length (notes_for w' (new_lecture_id ev)) = 1)
       \<or> (map_of d ''status'' = Some (PStr ''failed'')
            \<and> notes_for w' (new_lecture_id ev) = [])"
proof -
  let ?lid = "new_lecture_id ev"
  from fresh have nf: "\<not> list_ex (has_id ?lid) (lectures_coll w)"
    by (simp add: find_fresh_None find_lecture_def)
  from run created fresh obtain tr where tr: "upload_try ev req w = Some tr"
    and fin: "(case tr of
                 Returned response w1 \<Rightarrow> (Inr response, w1)
               | Raised e tp lid w1 \<Rightarrow> upload_except ev e tp lid w1) = (res, w')"
    by (auto simp: upload_lecture_def split: if_splits option.splits try_result.splits)
  note coll = upload_try_collections [OF completed_ok tr]
  show ?thesis
  proof (cases tr)
    case (Returned v w1)
    with fin have "w' = w1" by simp
    with coll Returned obtain d0 nd where d0: "has_id ?lid d0"
      and l: "lectures_coll w' = update_first ?lid [(''status'', PStr ''completed'')]
                (lectures_coll w @ [d0])"
      and n: "references ?lid nd" "notes_coll w' = notes_coll w @ [nd]"
      by auto
    from l nf d0 have "lectures_coll w' =
        lectures_coll w @ [set_fields [(''status'', PStr ''completed'')] d0]"
      by (simp add: update_first_append)
    with created nf set_completed [OF d0] have "map_of d ''status'' = Some (PStr ''completed'')"
      by (auto simp: find_lecture_def find_append_fresh)
    moreover from n no_notes have "length (notes_for w' ?lid) = 1"
      by (simp add: notes_for_def)
    ultimately show ?thesis by simp
  next
    case (Raised e tp lid w1)
    with fin have ex: "upload_except ev e tp lid w1 = (res, w')" by simp
    show ?thesis
    proof (cases lid)
      case None
      with coll Raised upload_except_collections(2) [OF ex] have "lectures_coll w' = lectures_coll w"
        by simp
      with created fresh show ?thesis
        by (simp add: find_lecture_def)
    next
      case (Some l)
      with coll Raised obtain d0 where le: "l = ?lid" and d0: "has_id ?lid d0"
        and l1: "lectures_coll w1 = lectures_coll w @ [d0]" and n1: "notes_coll w1 = notes_coll w"
        by auto
      from upload_except_collections(3) [OF ex failed_ok Some] le l1 nf d0
      have "lectures_coll w' = lectures_coll w
              @ [set_fields [(''status'', PStr ''failed''), (''error'', PStr (str_exc e))] d0]"
        by (simp add: update_first_append)
      with created nf set_failed [OF d0] have "map_of d ''status'' = Some (PStr ''failed'')"
        by (auto simp: find_lecture_def find_append_fresh)
      moreover from upload_except_collections(1) [OF ex] n1 no_notes
      have "notes_for w' ?lid = []"
        by (simp add: notes_for_def)
      ultimately show ?thesis by simp
    qed
  qed
qed

subsection \<open>What a run leaves in storage\<close>

lemma finalize_storage:
  assumes "remove_fault ev = None"
  shows "case finalize ev tp lid nd sn w of
           Returned v w' \<Rightarrow> \<not> path_exists w' tp
         | Raised e tp' lid' w' \<Rightarrow> tp' = Some tp"
  using assms
  by (auto simp: finalize_def insert_one_def update_one_def os_remove_def path_exists_def
        Let_def delete_conv' split: option.splits sum.splits)

lemma synthesize_storage:
  assumes "remove_fault ev = None"
  shows "case synthesize ev req tp lid td w of
           Returned v w' \<Rightarrow> \<not> path_exists w' tp
         | Raised e tp' lid' w' \<Rightarrow> tp' = Some tp"
  unfolding synthesize_def
  by (auto split: sum.splits intro: finalize_storage [OF assms])

lemma upload_try_storage:
  assumes "remove_fault ev = None" and "filename req = Some fname"
    and "upload_try ev req w = Some tr"
  shows "case tr of
           Returned v w' \<Rightarrow>
             \<not> path_exists w' (UPLOAD_DIR @ CHR ''/'' # now_stamp ev @ splitext_ext fname)
         | Raised e tp' lid' w' \<Rightarrow>
             tp' = Some (UPLOAD_DIR @ CHR ''/'' # now_stamp ev @ splitext_ext fname)"
proof -
  define tp where "tp = UPLOAD_DIR @ CHR ''/'' # now_stamp ev @ splitext_ext fname"
  have syn: "case synthesize ev req tp lid td w2 of
           Returned v w' \<Rightarrow> \<not> path_exists w' tp
         | Raised e tp' lid' w' \<Rightarrow> tp' = Some tp" for lid td w2
    by (rule synthesize_storage [OF assms(1)])
  have "case tr of Returned v w' \<Rightarrow> \<not> path_exists w' tp | Raised e tp' lid' w' \<Rightarrow> tp' = Some tp"
    using assms(2,3) syn
    unfolding tp_def
    by (auto simp: upload_try_def Let_def split: option.splits sum.splits)
  then show ?thesis
    unfolding tp_def .
qed

lemma upload_except_storage:
  assumes "update_failed_fault ev = None" and "remove_fault ev = None"
    and "upload_except ev e (Some p) lid w = (res, w')"
  shows "\<not> path_exists w' p"
  using assms
  by (auto simp: upload_except_def update_one_def os_remove_def path_exists_def delete_conv'
        split: option.splits if_splits)

lemma upload_lecture_storage:
  assumes "content_type req \<in> set ALLOWED_AUDIO_TYPES"
    and "length (content req) \<le> MAX_FILE_SIZE"
    and "filename req = Some fname"
    and "remove_fault ev = None"
    and "update_failed_fault ev = None"
    and run: "upload_lecture ev req w = Some (res, w')"
  shows "\<not> path_exists w' (UPLOAD_DIR @ ''/'' @ now_stamp ev @ splitext_ext fname)"
proof -
  from assms(1,2) run obtain tr where tr: "upload_try ev req w = Some tr"
    and fin: "(case tr of
                 Returned response w1 \<Rightarrow> (Inr response, w1)
               | Raised e tp lid w1 \<Rightarrow> upload_except ev e tp lid w1) = (res, w')"
    by (auto simp: upload_lecture_def split: option.splits try_result.splits)
  note st = upload_try_storage [OF assms(4) assms(3) tr]
  show ?thesis
  proof (cases tr)
    case (Returned v w1)
    with fin st show ?thesis by simp
  next
    case (Raised e tp lid w1)
    with st have "tp = Some (UPLOAD_DIR @ CHR ''/'' # now_stamp ev @ splitext_ext fname)"
      by simp
    with fin Raised upload_except_storage [OF assms(5) assms(4), of e _ lid w1 res w']
    show ?thesis by simp
  qed
qed

subsection \<open>A run returns as soon as the polling does\<close>

lemma transcribe_returns:
  assumes "\<forall>tid. get_transcript ev tid \<noteq> None"
  shows "transcribe ev w p \<noteq> None"
proof -
  have g: "get_transcript ev tid \<noteq> None" for tid
    using assms by blast
  show ?thesis
    unfolding transcribe_def
    by (simp add: g split: sum.splits option.splits prod.splits)
qed

lemma upload_lecture_returns:
  assumes "\<forall>tid. get_transcript ev tid \<noteq> None"
  shows "\<exists>r. upload_lecture ev req w = Some r"
proof -
  have t: "transcribe ev w2 p \<noteq> None" for w2 p
    by (rule transcribe_returns [OF assms])
  have "upload_try ev req w \<noteq> None"
    unfolding upload_try_def Let_def
    by (simp add: t split: option.splits sum.splits)
  then have "\<exists>tr. upload_try ev req w = Some tr"
    by blast
  then show ?thesis
    by (auto simp: upload_lecture_def split: try_result.splits)
qed

subsection \<open>The sample runs\<close>

lemma sample_env_fields:
  "py_repr sample_env = (\<lambda>v. ''<value>'')"
  "json_loads sample_env = canned_loads one_section_json one_section_value"
  "gemini sample_env = canned_gen one_section_text"
  "post_upload sample_env =
     (\<lambda>file_data. Inr (PDict [(''upload_url'', PStr ''https://cdn.example/upload/1'')]))"
  "post_transcript sample_env = (\<lambda>body. Inr (PDict [(''id'', PStr ''job-1'')]))"
  "poll_status sample_env = scripted [processing_result, processing_result, completed_result]"
  "now_stamp sample_env = ''1730000000.5''"
  "now_upload sample_env = 1730000000"
  "now_created sample_env = 1730000020"
  "now_edited sample_env = 1730000020"
  "new_lecture_id sample_env = ''65a1b2c3d4e5f60718293a4b''"
  "new_note_id sample_env = ''65a1b2c3d4e5f60718293a4c''"
  "open_fault sample_env = None"
  "write_fault sample_env = None"
  "insert_lecture_fault sample_env = None"
  "insert_note_fault sample_env = None"
  "update_completed_fault sample_env = None"
  "update_failed_fault sample_env = None"
  "remove_fault sample_env = None"
  "delete_notes_fault sample_env = None"
  "delete_lecture_fault sample_env = None"
  "find_fault sample_env = None"
  by (simp_all add: sample_env_def)

lemma processing_pending: "pending (Inr processing_result)"
  by (simp add: pending_def processing_result_def py_getitem_def)

lemma sample_polling:
  "poll_transcript (scripted [processing_result, processing_result, completed_result] tid) rep 0 0
     = Some (Inr completed_result, 10)"
proof -
  let ?server = "scripted [processing_result, processing_result, completed_result] tid"
  have "\<forall>j<2. pending (?server (0 + j))"
    using processing_pending by (auto simp: less_Suc_eq numeral_2_eq_2 scripted_def)
  from poll_skip [OF this, of rep 0]
  have "poll_transcript ?server rep 0 0 = poll_transcript ?server rep 2 10"
    by (simp add: numeral_2_eq_2)
  also have "\<dots> = Some (Inr completed_result, 10)"
    by (subst poll_transcript.simps)
       (simp add: scripted_def completed_result_def py_getitem_def)
  finally show ?thesis .
qed

lemma sample_polling_returns: "\<forall>tid. get_transcript sample_env tid \<noteq> None"
  by (simp add: get_transcript_def sample_env_fields sample_polling)

lemma sample_long: "50 \<le> length (strip sample_transcript)"
  by code_simp

lemma sample_notes:
  "fst (generate_notes (canned_gen one_section_text)
          (canned_loads one_section_json one_section_value) sample_transcript) =
     Inr (PDict
       [(''title'', PStr ''Limits''),
        (''sections'', PList [PDict
           [(''heading'', PStr ''Intro''),
            (''content'', PStr []),
            (''bullet_points'', PList []),
            (''timestamp'', PNone)]]),
        (''summary'', PStr ''Summary unavailable''),
        (''key_terms'', PList []),
        (''formulas'', PList []),
        (''action_items'', PList []),
        (''questions'', PList [])])"
  by code_simp

lemma sample_words: "length (split sample_transcript) = 15"
  by code_simp

lemmas eval_defs =
  upload_lecture_def upload_try_def upload_except_def synthesize_def finalize_def
  transcribe_def upload_file_def create_transcript_def transcript_dict_def get_transcript_def
  generate_notes_of_def word_count_def lecture_doc_def note_doc_def success_response_def
  insert_one_def update_one_def set_fields_def has_id_def os_remove_def path_exists_def
  ALLOWED_AUDIO_TYPES_def MAX_FILE_SIZE_def UPLOAD_DIR_def splitext_ext_def
  py_getitem_def py_get_def dict_get_def
  sample_upload_def empty_world_def Let_def unavailable_def
  sample_lecture_def sample_note_def sample_response_def
  sample_env_fields completed_result_def processing_result_def
  sample_polling [unfolded completed_result_def processing_result_def] sample_notes sample_words

text \<open>Every collaborator succeeds.\<close>

lemma run_completed:
  "upload_lecture sample_env sample_upload empty_world =
     Some (Inr sample_response,
           \<lparr>lectures_coll = [sample_lecture ''completed''],
            notes_coll = [sample_note],
            storage = []\<rparr>)"
  by (simp add: eval_defs)

text \<open>The note is stored, then the write of the status \<open>completed\<close> fails.\<close>

lemma run_completed_write_fails:
  "upload_lecture (sample_env\<lparr>update_completed_fault := Some (OtherError ''connection reset'')\<rparr>)
     sample_upload empty_world =
     Some (Inl (HTTPException 500 ''connection reset''),
           \<lparr>lectures_coll =
              [sample_lecture ''failed'' @ [(''error'', PStr ''connection reset'')]],
            notes_coll = [sample_note],
            storage = []\<rparr>)"
  by (simp add: eval_defs)

text \<open>The transcription provider is down.\<close>

lemma run_transcription_fails:
  "upload_lecture (sample_env\<lparr>post_upload := unavailable\<rparr>) sample_upload empty_world =
     Some (Inl (HTTPException 500 ''503 Service Unavailable''),
           \<lparr>lectures_coll =
              [sample_lecture ''failed'' @ [(''error'', PStr ''503 Service Unavailable'')]],
            notes_coll = [],
            storage = []\<rparr>)"
  by (simp add: eval_defs)

text \<open>The transcription provider is down, and the write of the status \<open>failed\<close> fails
  too.\<close>

lemma run_failed_write_fails:
  "upload_lecture
     (sample_env\<lparr>post_upload := unavailable,
                 update_failed_fault := Some (OtherError ''connection reset'')\<rparr>)
     sample_upload empty_world =
     Some (Inl (OtherError ''connection reset''),
           \<lparr>lectures_coll = [sample_lecture ''processing''],
            notes_coll = [],
            storage = [(''uploads/1730000000.5.mp3'', ''ID3 audio bytes'')]\<rparr>)"
  by (simp add: eval_defs)

text \<open>The removal of the staged file fails, after a successful run and after a failed
  transcription.\<close>

lemma run_completed_remove_fails:
  "upload_lecture
     (sample_env\<lparr>remove_fault := Some (OtherError ''[Errno 13] Permission denied'')\<rparr>)
     sample_upload empty_world =
     Some (Inr sample_response,
           \<lparr>lectures_coll = [sample_lecture ''completed''],
            notes_coll = [sample_note],
            storage = [(''uploads/1730000000.5.mp3'', ''ID3 audio bytes'')]\<rparr>)"
  by (simp add: eval_defs)

lemma run_failed_remove_fails:
  "upload_lecture
     (sample_env\<lparr>post_upload := unavailable,
                 remove_fault := Some (OtherError ''[Errno 13] Permission denied'')\<rparr>)
     sample_upload empty_world =
     Some (Inl (OtherError ''[Errno 13] Permission denied''),
           \<lparr>lectures_coll =
              [sample_lecture ''failed'' @ [(''error'', PStr ''503 Service Unavailable'')]],
            notes_coll = [],
            storage = [(''uploads/1730000000.5.mp3'', ''ID3 audio bytes'')]\<rparr>)"
  by (simp add: eval_defs)

text \<open>
  C1, as the code has it. Take a run of the upload endpoint whose lecture id is new to
  both collections and in which neither write of the lecture status raises. If the run
  ends and has created the lecture record, the record is either \<open>completed\<close> with exactly
  one note referencing it, or \<open>failed\<close> with none; it is not left \<open>processing\<close>. And
  the run does end whenever the polling of the transcription job does.
\<close>

theorem upload_lecture_terminal_status:
  assumes "find_lecture w (new_lecture_id ev) = None"
    and "notes_for w (new_lecture_id ev) = []"
    and "update_completed_fault ev = None"
    and "update_failed_fault ev = None"
  shows
   "(\<forall>res w' d. upload_lecture ev req w = Some (res, w')
          \<and> find_lecture w' (new_lecture_id ev) = Some d \<longrightarrow>
        (map_of d ''status'' = Some (PStr ''completed'')
           \<and> length (notes_for w' (new_lecture_id ev)) = 1)
        \<or> (map_of d ''status'' = Some (PStr ''failed'')
           \<and> notes_for w' (new_lecture_id ev) = []))
    \<and> ((\<forall>tid. get_transcript ev tid \<noteq> None) \<longrightarrow> (\<exists>r. upload_lecture ev req w = Some r))"
  using upload_lecture_status [OF _ assms] upload_lecture_returns [of ev req w]
  by blast

theorem upload_lecture_terminal_status_witness:
  "find_lecture empty_world (new_lecture_id sample_env) = None
   \<and> notes_for empty_world (new_lecture_id sample_env) = []
   \<and> update_completed_fault sample_env = None
   \<and> update_failed_fault sample_env = None
   \<and> upload_lecture sample_env sample_upload empty_world =
       Some (Inr sample_response,
             \<lparr>lectures_coll = [sample_lecture ''completed''],
              notes_coll = [sample_note],
              storage = []\<rparr>)
   \<and> find_lecture
        \<lparr>lectures_coll = [sample_lecture ''completed''], notes_coll = [sample_note], storage = []\<rparr>
        (new_lecture_id sample_env) = Some (sample_lecture ''completed'')
   \<and> map_of (sample_lecture ''completed'') ''status'' = Some (PStr ''completed'')
   \<and> length (notes_for
        \<lparr>lectures_coll = [sample_lecture ''completed''], notes_coll = [sample_note], storage = []\<rparr>
        (new_lecture_id sample_env)) = 1"
proof -
  have a: "find_lecture empty_world (new_lecture_id sample_env) = None"
    and b: "notes_for empty_world (new_lecture_id sample_env) = []"
    by (simp_all add: find_lecture_def notes_for_def empty_world_def)
  have c: "update_completed_fault sample_env = None"
    and d: "update_failed_fault sample_env = None"
    by (simp_all add: sample_env_fields)
  have f: "find_lecture
        \<lparr>lectures_coll = [sample_lecture ''completed''], notes_coll = [sample_note], storage = []\<rparr>
        (new_lecture_id sample_env) = Some (sample_lecture ''completed'')"
    by (simp add: find_lecture_def has_id_def sample_lecture_def sample_env_fields)
  have s: "map_of (sample_lecture ''completed'') ''status'' = Some (PStr ''completed'')"
    by (simp add: sample_lecture_def)
  have n: "notes_for
        \<lparr>lectures_coll = [sample_lecture ''completed''], notes_coll = [sample_note], storage = []\<rparr>
        (new_lecture_id sample_env) = [sample_note]"
    by (simp add: notes_for_def references_def sample_note_def sample_env_fields)
  from upload_lecture_terminal_status [OF a b c d, of sample_upload] run_completed f
  have "(map_of (sample_lecture ''completed'') ''status'' = Some (PStr ''completed'')
           \<and> length (notes_for
        \<lparr>lectures_coll = [sample_lecture ''completed''], notes_coll = [sample_note], storage = []\<rparr>
        (new_lecture_id sample_env)) = 1)
        \<or> (map_of (sample_lecture ''completed'') ''status'' = Some (PStr ''failed'')
           \<and> notes_for
        \<lparr>lectures_coll = [sample_lecture ''completed''], notes_coll = [sample_note], storage = []\<rparr>
        (new_lecture_id sample_env) = [])"
    by blast
  with n have "length (notes_for
        \<lparr>lectures_coll = [sample_lecture ''completed''], notes_coll = [sample_note], storage = []\<rparr>
        (new_lecture_id sample_env)) = 1"
    by simp
  with a b c d f s run_completed show ?thesis by blast
qed

text \<open>
  C1 as stated fails when a write of the status fails. If the note is stored and the
  write of \<open>completed\<close> then raises, the handler records \<open>failed\<close> and the note stays:
  a failed record with a note. If the transcription fails and the write of \<open>failed\<close>
  raises as well, the record is left \<open>processing\<close>.
\<close>

theorem upload_lecture_status_counterexample:
  "upload_lecture (sample_env\<lparr>update_completed_fault := Some (OtherError ''connection reset'')\<rparr>)
     sample_upload empty_world =
     Some (Inl (HTTPException 500 ''connection reset''),
           \<lparr>lectures_coll =
              [sample_lecture ''failed'' @ [(''error'', PStr ''connection reset'')]],
            notes_coll = [sample_note],
            storage = []\<rparr>)
   \<and> upload_lecture
     (sample_env\<lparr>post_upload := unavailable,
                 update_failed_fault := Some (OtherError ''connection reset'')\<rparr>)
     sample_upload empty_world =
     Some (Inl (OtherError ''connection reset''),
           \<lparr>lectures_coll = [sample_lecture ''processing''],
            notes_coll = [],
            storage = [(''uploads/1730000000.5.mp3'', ''ID3 audio bytes'')]\<rparr>)"
  using run_completed_write_fails run_failed_write_fails by blast

text \<open>
  C7, as the code has it. Take a run that passes the two checks on the upload and has a
  file name, in which the removal of a file does not fail and the write of the status
  \<open>failed\<close> does not raise. When the run ends, on whichever path and whatever the
  synthesizer did, the staged file is not in storage. And the run does end whenever the
  polling of the transcription job does.
\<close>

theorem upload_lecture_cleanup:
  assumes "content_type req \<in> set ALLOWED_AUDIO_TYPES"
    and "length (content req) \<le> MAX_FILE_SIZE"
    and "filename req = Some fname"
    and "remove_fault ev = None"
    and "update_failed_fault ev = None"
  shows
   "(\<forall>res w'. upload_lecture ev req w = Some (res, w') \<longrightarrow>
        \<not> path_exists w' (UPLOAD_DIR @ ''/'' @ now_stamp ev @ splitext_ext fname))
    \<and> ((\<forall>tid. get_transcript ev tid \<noteq> None) \<longrightarrow> (\<exists>r. upload_lecture ev req w = Some r))"
  using upload_lecture_storage [OF assms] upload_lecture_returns [of ev req w]
  by blast

theorem upload_lecture_cleanup_witness:
  "content_type sample_upload \<in> set ALLOWED_AUDIO_TYPES
   \<and> length (content sample_upload) \<le> MAX_FILE_SIZE
   \<and> filename sample_upload = Some ''lecture1.mp3''
   \<and> remove_fault (sample_env\<lparr>post_upload := unavailable\<rparr>) = None
   \<and> update_failed_fault (sample_env\<lparr>post_upload := unavailable\<rparr>) = None
   \<and> upload_lecture (sample_env\<lparr>post_upload := unavailable\<rparr>) sample_upload empty_world =
       Some (Inl (HTTPException 500 ''503 Service Unavailable''),
             \<lparr>lectures_coll =
                [sample_lecture ''failed'' @ [(''error'', PStr ''503 Service Unavailable'')]],
              notes_coll = [],
              storage = []\<rparr>)
   \<and> \<not> path_exists
        \<lparr>lectures_coll =
           [sample_lecture ''failed'' @ [(''error'', PStr ''503 Service Unavailable'')]],
         notes_coll = [],
         storage = []\<rparr>
        (UPLOAD_DIR @ ''/'' @ now_stamp (sample_env\<lparr>post_upload := unavailable\<rparr>)
           @ splitext_ext ''lecture1.mp3'')"
proof -
  let ?ev = "sample_env\<lparr>post_upload := unavailable\<rparr>"
  have a: "content_type sample_upload \<in> set ALLOWED_AUDIO_TYPES"
    and b: "length (content sample_upload) \<le> MAX_FILE_SIZE"
    and c: "filename sample_upload = Some ''lecture1.mp3''"
    by (simp_all add: sample_upload_def ALLOWED_AUDIO_TYPES_def MAX_FILE_SIZE_def)
  have d: "remove_fault ?ev = None" and e: "update_failed_fault ?ev = None"
    by (simp_all add: sample_env_fields)
  from upload_lecture_cleanup [OF a b c d e, of empty_world] run_transcription_fails
  have "\<not> path_exists
        \<lparr>lectures_coll =
           [sample_lecture ''failed'' @ [(''error'', PStr ''503 Service Unavailable'')]],
         notes_coll = [],
         storage = []\<rparr>
        (UPLOAD_DIR @ ''/'' @ now_stamp ?ev @ splitext_ext ''lecture1.mp3'')"
    by blast
  with a b c d e run_transcription_fails show ?thesis by blast
qed

text \<open>
  C7 as stated fails: when the transcription fails and the handler's write of the status
  \<open>failed\<close> raises, the handler is left before its cleanup and the staged file stays in
  storage although nothing prevents its removal.
\<close>

theorem upload_lecture_cleanup_counterexample:
  "remove_fault
     (sample_env\<lparr>post_upload := unavailable,
                 update_failed_fault := Some (OtherError ''connection reset'')\<rparr>) = None
   \<and> upload_lecture
     (sample_env\<lparr>post_upload := unavailable,
                 update_failed_fault := Some (OtherError ''connection reset'')\<rparr>)
     sample_upload empty_world =
     Some (Inl (OtherError ''connection reset''),
           \<lparr>lectures_coll = [sample_lecture ''processing''],
            notes_coll = [],
            storage = [(''uploads/1730000000.5.mp3'', ''ID3 audio bytes'')]\<rparr>)
   \<and> path_exists
       \<lparr>lectures_coll = [sample_lecture ''processing''],
        notes_coll = [],
        storage = [(''uploads/1730000000.5.mp3'', ''ID3 audio bytes'')]\<rparr>
       ''uploads/1730000000.5.mp3''"
  using run_failed_write_fails by (simp add: sample_env_fields path_exists_def)

text \<open>
  C8 at the failing input. After a successful run a failing removal is swallowed: the
  caller gets the response and the file stays. After a failed transcription the same
  failing removal is not swallowed: it leaves the handler in place of the
  \<open>HTTPException\<close> with status 500 and the message of the transcription error, which
  is what the caller gets when the removal works.
\<close>

theorem upload_lecture_cleanup_failure:
  "upload_lecture
     (sample_env\<lparr>remove_fault := Some (OtherError ''[Errno 13] Permission denied'')\<rparr>)
     sample_upload empty_world =
     Some (Inr sample_response,
           \<lparr>lectures_coll = [sample_lecture ''completed''],
            notes_coll = [sample_note],
            storage = [(''uploads/1730000000.5.mp3'', ''ID3 audio bytes'')]\<rparr>)
   \<and> upload_lecture
     (sample_env\<lparr>post_upload := unavailable,
                 remove_fault := Some (OtherError ''[Errno 13] Permission denied'')\<rparr>)
     sample_upload empty_world =
     Some (Inl (OtherError ''[Errno 13] Permission denied''),
           \<lparr>lectures_coll =
              [sample_lecture ''failed'' @ [(''error'', PStr ''503 Service Unavailable'')]],
            notes_coll = [],
            storage = [(''uploads/1730000000.5.mp3'', ''ID3 audio bytes'')]\<rparr>)
   \<and> upload_lecture (sample_env\<lparr>post_upload := unavailable\<rparr>) sample_upload empty_world =
     Some (Inl (HTTPException 500 ''503 Service Unavailable''),
           \<lparr>lectures_coll =
              [sample_lecture ''failed'' @ [(''error'', PStr ''503 Service Unavailable'')]],
            notes_coll = [],
            storage = []\<rparr>)"
  using run_completed_remove_fails run_failed_remove_fails run_transcription_fails by blast

section \<open>Deleting and listing lectures\<close>

text \<open>
  C9 at the failing input. The lecture id is well-formed and matches no stored lecture.
  The note that references it is deleted first; the endpoint then raises its
  \<open>HTTPException\<close> with status 404 inside the \<open>try\<close> block, where its own handler
  catches it and raises status 500 instead, with the rendering of the 404 as detail.
\<close>

theorem delete_lecture_not_found:
  "delete_try sample_env ''65a1b2c3d4e5f60718293a4d''
     \<lparr>lectures_coll = [sample_lecture ''completed''],
      notes_coll = [sample_note, orphan_note],
      storage = []\<rparr> =
     (Inl (HTTPException 404 ''Lecture not found''),
      \<lparr>lectures_coll = [sample_lecture ''completed''],
       notes_coll = [sample_note],
       storage = []\<rparr>)
   \<and> delete_lecture sample_env ''65a1b2c3d4e5f60718293a4d''
     \<lparr>lectures_coll = [sample_lecture ''completed''],
      notes_coll = [sample_note, orphan_note],
      storage = []\<rparr> =
     (Inl (HTTPException 500 ''404: Lecture not found''),
      \<lparr>lectures_coll = [sample_lecture ''completed''],
       notes_coll = [sample_note],
       storage = []\<rparr>)"
proof -
  have oid: "ObjectId ''65a1b2c3d4e5f60718293a4d'' = Inr ''65a1b2c3d4e5f60718293a4d''"
    by (simp add: ObjectId_def hex_digit_def lower_hex_def)
  have code: "decimal 404 = ''404''"
    by (simp add: decimal.simps)
  have t: "delete_try sample_env ''65a1b2c3d4e5f60718293a4d''
     \<lparr>lectures_coll = [sample_lecture ''completed''],
      notes_coll = [sample_note, orphan_note],
      storage = []\<rparr> =
     (Inl (HTTPException 404 ''Lecture not found''),
      \<lparr>lectures_coll = [sample_lecture ''completed''],
       notes_coll = [sample_note],
       storage = []\<rparr>)"
    by (simp add: delete_try_def oid sample_env_fields references_def has_id_def
          sample_note_def orphan_note_def sample_lecture_def)
  then show ?thesis
    by (simp add: delete_lecture_def code)
qed

subsection \<open>The listing\<close>

lemma public_lecture_keeps:
  assumes "public_lecture ev x = Inr y"
  shows "upload_rank y = upload_rank x" and "map_of y ''file_path'' = None"
  using assms
  by (auto simp: public_lecture_def upload_rank_def delete_conv' update_conv'
        split: option.splits)

lemma public_lectures_keep:
  "public_lectures ev xs = Inr ys \<Longrightarrow>
   length ys = length xs \<and> map upload_rank ys = map upload_rank xs
   \<and> (\<forall>y \<in> set ys. map_of y ''file_path'' = None)"
proof (induction xs arbitrary: ys)
  case Nil
  then show ?case by simp
next
  case (Cons x xs)
  then obtain y ys' where "public_lecture ev x = Inr y" and "public_lectures ev xs = Inr ys'"
    and "ys = y # ys'"
    by (auto split: sum.splits)
  with Cons.IH [of ys'] public_lecture_keeps [of ev x y] show ?case
    by simp
qed

lemma public_lectures_returns:
  "\<forall>x \<in> set xs. map_of x ''_id'' \<noteq> None \<Longrightarrow> \<exists>ys. public_lectures ev xs = Inr ys"
  by (induction xs) (auto simp: public_lecture_def)

lemma find_user_lectures_length: "length (find_user_lectures uid coll) \<le> 100"
  by (simp add: find_user_lectures_def)

lemma find_user_lectures_sorted:
  "sorted (rev (map upload_rank (find_user_lectures uid coll)))"
proof -
  define zs where "zs = filter (\<lambda>d. map_of d ''user_id'' = Some (PStr uid)) coll"
  have "rev (map upload_rank (take 100 (rev (sort_key upload_rank zs))))
      = drop (length zs - 100) (map upload_rank (sort_key upload_rank zs))"
    by (simp add: rev_map rev_take drop_map)
  moreover have "sorted (map upload_rank (sort_key upload_rank zs))"
    by (rule sorted_sort_key)
  ultimately show ?thesis
    by (simp add: find_user_lectures_def zs_def sorted_wrt_drop)
qed

lemma find_user_lectures_subset:
  "set (find_user_lectures uid coll) \<subseteq> set coll"
proof -
  have "set (find_user_lectures uid coll)
      \<subseteq> set (rev (sort_key upload_rank (filter (\<lambda>d. map_of d ''user_id'' = Some (PStr uid)) coll)))"
    unfolding find_user_lectures_def by (rule set_take_subset)
  then show ?thesis by auto
qed

text \<open>
  C10. Whenever the listing returns, it returns at most 100 lecture records, in
  descending order of upload date, none of which has the key \<open>file_path\<close>. It does
  return when the query does not fail (every stored document has its \<open>_id\<close>).
\<close>

theorem get_user_lectures_listing:
  "(\<forall>out. get_user_lectures ev uid w = Inr out \<longrightarrow>
       length out \<le> 100
       \<and> sorted (rev (map upload_rank out))
       \<and> (\<forall>d \<in> set out. map_of d ''file_path'' = None))
   \<and> (find_fault ev = None \<and> (\<forall>d \<in> set (lectures_coll w). map_of d ''_id'' \<noteq> None) \<longrightarrow>
       (\<exists>out. get_user_lectures ev uid w = Inr out))"
proof -
  have first: "length out \<le> 100 \<and> sorted (rev (map upload_rank out))
       \<and> (\<forall>d \<in> set out. map_of d ''file_path'' = None)"
    if "get_user_lectures ev uid w = Inr out" for out
  proof -
    from that have "public_lectures ev (find_user_lectures uid (lectures_coll w)) = Inr out"
      by (auto simp: get_user_lectures_def split: option.splits sum.splits)
    from public_lectures_keep [OF this]
      find_user_lectures_length [of uid "lectures_coll w"]
      find_user_lectures_sorted [of uid "lectures_coll w"]
    show ?thesis by simp
  qed
  have second: "\<exists>out. get_user_lectures ev uid w = Inr out"
    if "find_fault ev = None" and "\<forall>d \<in> set (lectures_coll w). map_of d ''_id'' \<noteq> None"
  proof -
    from that(2) find_user_lectures_subset [of uid "lectures_coll w"]
    have "\<forall>x \<in> set (find_user_lectures uid (lectures_coll w)). map_of x ''_id'' \<noteq> None"
      by blast
    from public_lectures_returns [OF this, of ev] obtain ys where
      "public_lectures ev (find_user_lectures uid (lectures_coll w)) = Inr ys"
      by blast
    with that(1) show ?thesis
      by (simp add: get_user_lectures_def)
  qed
  from first second show ?thesis by blast
qed

theorem get_user_lectures_listing_witness:
  "find_fault sample_env = None
   \<and> get_user_lectures sample_env ''ada'' listing_world =
       Inr [listed_lecture ''65a1b2c3d4e5f60718293a03'' ''ada'' 1730000300,
            listed_lecture ''65a1b2c3d4e5f60718293a01'' ''ada'' 1730000100]
   \<and> length [listed_lecture ''65a1b2c3d4e5f60718293a03'' ''ada'' 1730000300,
             listed_lecture ''65a1b2c3d4e5f60718293a01'' ''ada'' 1730000100] \<le> 100
   \<and> sorted (rev (map upload_rank
        [listed_lecture ''65a1b2c3d4e5f60718293a03'' ''ada'' 1730000300,
         listed_lecture ''65a1b2c3d4e5f60718293a01'' ''ada'' 1730000100]))
   \<and> map_of (listed_lecture ''65a1b2c3d4e5f60718293a03'' ''ada'' 1730000300) ''file_path'' = None
   \<and> map_of (listed_lecture ''65a1b2c3d4e5f60718293a01'' ''ada'' 1730000100) ''file_path'' = None"
proof -
  have f: "find_fault sample_env = None"
    by (simp add: sample_env_fields)
  have r: "get_user_lectures sample_env ''ada'' listing_world =
       Inr [listed_lecture ''65a1b2c3d4e5f60718293a03'' ''ada'' 1730000300,
            listed_lecture ''65a1b2c3d4e5f60718293a01'' ''ada'' 1730000100]"
    by (simp add: get_user_lectures_def find_user_lectures_def public_lecture_def
          listing_world_def dated_lecture_def listed_lecture_def upload_rank_def
          sample_env_fields py_str_def)
  from get_user_lectures_listing [of sample_env "''ada''" listing_world] r
  have "length [listed_lecture ''65a1b2c3d4e5f60718293a03'' ''ada'' 1730000300,
             listed_lecture ''65a1b2c3d4e5f60718293a01'' ''ada'' 1730000100] \<le> 100
   \<and> sorted (rev (map upload_rank
        [listed_lecture ''65a1b2c3d4e5f60718293a03'' ''ada'' 1730000300,
         listed_lecture ''65a1b2c3d4e5f60718293a01'' ''ada'' 1730000100]))
   \<and> (\<forall>d \<in> set [listed_lecture ''65a1b2c3d4e5f60718293a03'' ''ada'' 1730000300,
                  listed_lecture ''65a1b2c3d4e5f60718293a01'' ''ada'' 1730000100].
         map_of d ''file_path'' = None)"
    by blast
  with f r show ?thesis by simp
qed

end
